theory Spec2Isabelle
  imports Main "HOL-Library.Word"
begin

section \<open>The vehicle-side controller (Bus(Slave).ino)\<close>

text \<open>
  A shallow embedding of the Arduino sketch \<^verbatim>\<open>Bus(Slave).ino\<close>. The sketch runs on an
  AVR board: \<^verbatim>\<open>byte\<close> is 8 bits, \<^verbatim>\<open>int\<close> and \<^verbatim>\<open>unsigned int\<close> are 16 bits (the
  station sketch stores its three \<^verbatim>\<open>int\<close> counters two bytes apart), and
  \<^verbatim>\<open>unsigned long\<close> is 32 bits. Unsigned arithmetic wraps around and is modelled by words.
  The only signed variable that is ever incremented is \<^verbatim>\<open>passengerCount\<close>; it is an
  \<open>int\<close> here, and its increment is written out with the wrap-around of the 16-bit
  two's complement register pair that holds it: from \<open>INT_MAX\<close> it goes on at \<open>INT_MIN\<close>.

  The global variables of the sketch, the pins it drives, the display and the serial line it
  writes are the fields of one record; every function of the sketch takes the record and
  returns it updated. What the sketch reads from its environment during one pass of
  \<^verbatim>\<open>loop()\<close> is a second record. \<^verbatim>\<open>millis()\<close> is the field \<open>clock\<close>: it is set from the
  environment at the start of a pass and advanced by every \<^verbatim>\<open>delay()\<close>; the time the
  other statements take is not modelled.
\<close>

type_synonym u8 = "8 word"
type_synonym u16 = "16 word"
type_synonym u32 = "32 word"

datatype level = LOW | HIGH

datatype fault = UnterminatedName | UidIndexOutOfRange

subsection \<open>Constants and settings\<close>

definition TIMEOUT_MS :: nat where "TIMEOUT_MS = 10000"
definition GATE_BLOCK_CHECK_DELAY_MS :: nat where "GATE_BLOCK_CHECK_DELAY_MS = 1500"
definition MAGIC_VALUE :: u16 where "MAGIC_VALUE = 0xAFCB"
definition MAX_NAME_LENGTH :: nat where "MAX_NAME_LENGTH = 16"
definition MAX_REGISTERED_CARDS :: nat where "MAX_REGISTERED_CARDS = 5"
definition UID_MAX_SIZE :: nat where "UID_MAX_SIZE = 10"
definition SEQ_TIMEOUT_MS :: nat where "SEQ_TIMEOUT_MS = 1000"
definition IR_DEBOUNCE_MS :: nat where "IR_DEBOUNCE_MS = 50"
definition BUZZER_DURATION_MS :: nat where "BUZZER_DURATION_MS = 3000"
definition EMERGENCY_TIMEOUT_MS :: nat where "EMERGENCY_TIMEOUT_MS = 5000"
definition INT_MAX :: int where "INT_MAX = 32767"
definition INT_MIN :: int where "INT_MIN = - 32768"

definition EEPROM_ADDR_MAGIC :: nat where "EEPROM_ADDR_MAGIC = 0"
definition EEPROM_ADDR_NUM_CARDS :: nat where "EEPROM_ADDR_NUM_CARDS = EEPROM_ADDR_MAGIC + 2"
definition EEPROM_ADDR_CARDS_DATA :: nat where "EEPROM_ADDR_CARDS_DATA = EEPROM_ADDR_NUM_CARDS + 1"

subsection \<open>Printing numbers and searching strings\<close>

text \<open>\<^verbatim>\<open>Print::print(n, base)\<close> and the \<^verbatim>\<open>%d\<close>, \<^verbatim>\<open>%u\<close> conversions of \<^verbatim>\<open>sprintf\<close>.\<close>

definition digit :: "nat \<Rightarrow> char" where
  "digit d = ''0123456789ABCDEF'' ! d"

fun dec :: "nat \<Rightarrow> string" where
  "dec n = (if n < 10 then [digit n] else dec (n div 10) @ [digit (n mod 10)])"

fun hex :: "nat \<Rightarrow> string" where
  "hex n = (if n < 16 then [digit n] else hex (n div 16) @ [digit (n mod 16)])"

declare dec.simps [simp del] hex.simps [simp del]

definition print_int :: "int \<Rightarrow> string" where
  "print_int x = (if x < 0 then CHR ''-'' # dec (nat (- x)) else dec (nat x))"

definition print_uint :: "u16 \<Rightarrow> string" where
  "print_uint w = dec (unat w)"

text \<open>\<^verbatim>\<open>String::indexOf\<close>: the position of the first occurrence, \<open>None\<close> for \<^verbatim>\<open>-1\<close>.\<close>

fun starts_with :: "string \<Rightarrow> string \<Rightarrow> bool" where
  "starts_with [] cs = True"
| "starts_with (p # ps) [] = False"
| "starts_with (p # ps) (c # cs) = (p = c \<and> starts_with ps cs)"

fun indexOf :: "string \<Rightarrow> string \<Rightarrow> nat option" where
  "indexOf [] pat = None"
| "indexOf (c # cs) pat =
     (if starts_with pat (c # cs) then Some 0 else map_option Suc (indexOf cs pat))"

subsection \<open>Data structures and global variables\<close>

record RegisteredCard =
  uid :: "u8 list"
  uidSize :: u8
  name :: string
  scanCount :: u16

text \<open>
  \<open>uid\<close> is the array \<^verbatim>\<open>byte uid[UID_MAX_SIZE]\<close>, always ten bytes; \<open>name\<close> is the
  C string held by \<^verbatim>\<open>char name[MAX_NAME_LENGTH + 1]\<close>, without its terminator.
\<close>

definition predefinedUsers :: "RegisteredCard list" where
  "predefinedUsers =
    [\<lparr>uid = [0xF3, 0x97, 0x17, 0x2D, 0, 0, 0, 0, 0, 0], uidSize = 4,
      name = ''BUS DRIVER'', scanCount = 0\<rparr>,
     \<lparr>uid = [0x19, 0x78, 0x97, 0x3F, 0, 0, 0, 0, 0, 0], uidSize = 4,
      name = ''HELPER'', scanCount = 0\<rparr>,
     \<lparr>uid = [0x11, 0x22, 0x33, 0x44, 0, 0, 0, 0, 0, 0], uidSize = 4,
      name = ''STATION MASTER'', scanCount = 0\<rparr>]"

definition NUM_PREDEFINED_USERS :: u8 where
  "NUM_PREDEFINED_USERS = of_nat (length predefinedUsers)"

record state =
  hasRotated :: bool
  lastMessageTime :: u32
  passengerCount :: int
  ir1Triggered :: bool
  ir2Triggered :: bool
  lastTriggerTime :: u32
  emergencyPressCount :: u16
  lastScannedName :: string
  lastScannedCount :: u16
  overloadCount :: u16
  numLoadedCards :: u8
  buzzerOnTime :: u32
  lastButtonState :: level
  lastEmergencyTime :: u32
  emergencyMode :: bool
  servoOpen :: bool
  isOverloaded :: bool
  registeredCards :: "RegisteredCard list"
  clock :: u32
  servo :: nat
  buzzer :: level
  tone :: "(nat \<times> nat) option"
  lcd :: "string \<times> string"
  serial_out :: "string list"

text \<open>
  The last six fields are the hardware the sketch drives: the value of \<^verbatim>\<open>millis()\<close>, the
  angle last written to the servo (60 closes the gate, 120 opens it), the level of the
  buzzer pin, the tone requested on that pin (frequency and duration), the two rows of the
  display, and the lines written to the serial port, oldest first.
\<close>

record RfidUid =
  uidByte :: "u8 list"
  size_uid :: u8

record input =
  now :: u32
  button :: level
  serial_in :: "string option"
  card :: "RfidUid option"
  ir_timeout :: "level \<times> level"
  ir_count :: "level \<times> level"
  ir_close :: "level \<times> level"

text \<open>
  One \<open>input\<close> is what a pass of \<^verbatim>\<open>loop()\<close> reads: \<^verbatim>\<open>millis()\<close> at its start, the
  emergency button pin, the line returned by \<^verbatim>\<open>Serial.readStringUntil\<close> when
  \<^verbatim>\<open>Serial.available()\<close> holds, the UID of the card when a new card is present and its
  serial was read, and the two infrared sensor pins at the three places where the pass reads
  them: in the Bluetooth timeout, in the counting logic and in \<^verbatim>\<open>checkAndCloseServo\<close>
  (sensor 1 first).
\<close>

subsection \<open>Serial port, display and timer\<close>

definition println :: "string \<Rightarrow> state \<Rightarrow> state" where
  "println line s = s\<lparr>serial_out := serial_out s @ [line]\<rparr>"

definition lcd_clear :: "state \<Rightarrow> state" where
  "lcd_clear s = s\<lparr>lcd := ([], [])\<rparr>"

definition overwrite :: "string \<Rightarrow> string \<Rightarrow> string" where
  "overwrite text old = text @ drop (length text) old"

text \<open>\<^verbatim>\<open>lcd.setCursor(0, row); lcd.print(text)\<close>.\<close>

definition lcd_print :: "nat \<Rightarrow> string \<Rightarrow> state \<Rightarrow> state" where
  "lcd_print row text s =
     (if row = 0 then s\<lparr>lcd := (overwrite text (fst (lcd s)), snd (lcd s))\<rparr>
      else s\<lparr>lcd := (fst (lcd s), overwrite text (snd (lcd s)))\<rparr>)"

definition delay :: "nat \<Rightarrow> state \<Rightarrow> state" where
  "delay ms s = s\<lparr>clock := clock s + of_nat ms\<rparr>"

text \<open>\<^verbatim>\<open>millis() - t\<close>, an \<^verbatim>\<open>unsigned long\<close> difference.\<close>

definition since :: "state \<Rightarrow> u32 \<Rightarrow> nat" where
  "since s t = unat (clock s - t)"

subsection \<open>updateLCD and resetIRStates\<close>

definition pad16 :: "string \<Rightarrow> string" where
  "pad16 buffer = buffer @ replicate (16 - length buffer) CHR '' ''"

definition updateLCD :: "state \<Rightarrow> state" where
  "updateLCD s =
     (if passengerCount s > 5 then
        let s1 = (if \<not> isOverloaded s then
                    println ''Overload detected, buzzer ON.''
                      (s\<lparr>isOverloaded := True, buzzer := HIGH, buzzerOnTime := clock s,
                         overloadCount := overloadCount s + 1\<rparr>)
                  else s)
        in lcd_print 1 (pad16 (print_int (passengerCount s1) @ '' (Overload)'')) s1
      else
        let s1 = (if isOverloaded s then
                    println ''Passenger count normal. Overload state reset.''
                      (s\<lparr>isOverloaded := False\<rparr>)
                  else s)
        in (lcd_print 1 (pad16 (''Count: '' @ print_int (passengerCount s1))) s1)
             \<lparr>buzzer := LOW\<rparr>)"

definition resetIRStates :: "state \<Rightarrow> state" where
  "resetIRStates s = s\<lparr>ir1Triggered := False, ir2Triggered := False\<rparr>"

subsection \<open>sendAdminData\<close>

text \<open>
  The loop of \<^verbatim>\<open>sendAdminData\<close>: \<open>i\<close> runs from its current value up to
  \<^verbatim>\<open>numLoadedCards\<close>, \<open>k\<close> counts the iterations that are left.
\<close>

fun append_users :: "RegisteredCard list \<Rightarrow> nat \<Rightarrow> nat \<Rightarrow> string \<Rightarrow> string" where
  "append_users cards i 0 buffer = buffer"
| "append_users cards i (Suc k) buffer =
     (let userData = '','' @ name (cards ! i) @ '','' @ print_uint (scanCount (cards ! i))
      in append_users cards (Suc i) k (buffer @ userData))"

definition admin_line :: "state \<Rightarrow> string" where
  "admin_line s =
     append_users (registeredCards s) 0 (unat (numLoadedCards s))
       (''D:'' @ print_int (passengerCount s) @ '','' @ print_uint (emergencyPressCount s)
         @ '','' @ print_uint (overloadCount s))"

definition sendAdminData :: "state \<Rightarrow> state" where
  "sendAdminData s =
     (let buffer = admin_line s
      in println (''Sent to Admin: '' @ buffer) (println buffer s))"

subsection \<open>EEPROM\<close>

text \<open>
  The EEPROM is a byte store. \<^verbatim>\<open>EEPROM.get\<close> and \<^verbatim>\<open>EEPROM.put\<close> copy the bytes of an
  object; the AVR is little-endian and \<^verbatim>\<open>CardForEEPROM\<close> has no padding: ten bytes of
  UID, one of size, seventeen of name.
\<close>

type_synonym eeprom = "nat \<Rightarrow> u8"

definition EEPROM_get_u16 :: "eeprom \<Rightarrow> nat \<Rightarrow> u16" where
  "EEPROM_get_u16 e a = of_nat (unat (e a) + 256 * unat (e (a + 1)))"

definition EEPROM_put_u16 :: "eeprom \<Rightarrow> nat \<Rightarrow> u16 \<Rightarrow> eeprom" where
  "EEPROM_put_u16 e a v = e(a := of_nat (unat v mod 256), a + 1 := of_nat (unat v div 256))"

fun EEPROM_put_bytes :: "eeprom \<Rightarrow> nat \<Rightarrow> u8 list \<Rightarrow> eeprom" where
  "EEPROM_put_bytes e a [] = e"
| "EEPROM_put_bytes e a (b # bs) = EEPROM_put_bytes (e(a := b)) (Suc a) bs"

definition EEPROM_get_bytes :: "eeprom \<Rightarrow> nat \<Rightarrow> nat \<Rightarrow> u8 list" where
  "EEPROM_get_bytes e a n = map e [a ..< a + n]"

record CardForEEPROM =
  ee_uid :: "u8 list"
  ee_uidSize :: u8
  ee_name :: "u8 list"

definition sizeof_CardForEEPROM :: nat where
  "sizeof_CardForEEPROM = UID_MAX_SIZE + 1 + (MAX_NAME_LENGTH + 1)"

definition card_bytes :: "CardForEEPROM \<Rightarrow> u8 list" where
  "card_bytes c = ee_uid c @ [ee_uidSize c] @ ee_name c"

definition EEPROM_get_card :: "eeprom \<Rightarrow> nat \<Rightarrow> CardForEEPROM" where
  "EEPROM_get_card e a =
     \<lparr>ee_uid = EEPROM_get_bytes e a UID_MAX_SIZE,
      ee_uidSize = e (a + UID_MAX_SIZE),
      ee_name = EEPROM_get_bytes e (a + UID_MAX_SIZE + 1) (MAX_NAME_LENGTH + 1)\<rparr>"

definition byte_of_char :: "char \<Rightarrow> u8" where
  "byte_of_char c = of_nat (of_char c)"

definition char_of_byte :: "u8 \<Rightarrow> char" where
  "char_of_byte b = char_of (unat b)"

text \<open>
  \<^verbatim>\<open>strcpy(dst, src)\<close> into a character array whose bytes were \<open>old\<close>: the characters
  of \<open>src\<close> and the terminator are written, the bytes behind them keep their value.
\<close>

definition strcpy_into :: "u8 list \<Rightarrow> string \<Rightarrow> u8 list" where
  "strcpy_into old src = (let bs = map byte_of_char src @ [0] in bs @ drop (length bs) old)"

text \<open>The C string that starts a character array, when the array holds a terminator.\<close>

definition c_string :: "u8 list \<Rightarrow> string option" where
  "c_string bs = (if 0 \<in> set bs then Some (map char_of_byte (takeWhile (\<lambda>b. b \<noteq> 0) bs)) else None)"

subsection \<open>writePredefinedCardsToEEPROM and loadCardsFromEEPROM\<close>

text \<open>
  \<^verbatim>\<open>card_to_store\<close> is an uninitialised local: the bytes of its name behind the
  terminator are whatever the stack held. \<open>junk i j\<close> stands for the byte found at offset
  \<open>j\<close> of the name in iteration \<open>i\<close>.
\<close>

definition card_to_store :: "(nat \<Rightarrow> nat \<Rightarrow> u8) \<Rightarrow> nat \<Rightarrow> CardForEEPROM" where
  "card_to_store junk i =
     \<lparr>ee_uid = uid (predefinedUsers ! i),
      ee_uidSize = uidSize (predefinedUsers ! i),
      ee_name = strcpy_into (map (junk i) [0 ..< MAX_NAME_LENGTH + 1])
                  (name (predefinedUsers ! i))\<rparr>"

fun write_cards :: "(nat \<Rightarrow> nat \<Rightarrow> u8) \<Rightarrow> nat \<Rightarrow> nat \<Rightarrow> eeprom \<Rightarrow> eeprom" where
  "write_cards junk i 0 e = e"
| "write_cards junk i (Suc k) e =
     (let startAddress = EEPROM_ADDR_CARDS_DATA + i * sizeof_CardForEEPROM
      in write_cards junk (Suc i) k
           (EEPROM_put_bytes e startAddress (card_bytes (card_to_store junk i))))"

definition writePredefinedCardsToEEPROM ::
    "(nat \<Rightarrow> nat \<Rightarrow> u8) \<Rightarrow> eeprom \<times> state \<Rightarrow> eeprom \<times> state" where
  "writePredefinedCardsToEEPROM junk es =
     (let (e, s) = es;
          s1 = (if unat NUM_PREDEFINED_USERS > MAX_REGISTERED_CARDS then
                  println ''WARNING: Too many predefined users to fit in EEPROM!'' s
                else s);
          e1 = e(EEPROM_ADDR_NUM_CARDS := NUM_PREDEFINED_USERS);
          e2 = write_cards junk 0 (unat NUM_PREDEFINED_USERS) e1
      in (e2, println ''Predefined cards written to EEPROM.'' s1))"

definition uid_hex :: "u8 list \<Rightarrow> string" where
  "uid_hex bs = concat (map (\<lambda>b. (if b < 0x10 then '' 0'' else '' '') @ hex (unat b)) bs)"

text \<open>
  The loop of \<^verbatim>\<open>loadCardsFromEEPROM\<close>. Two reads of the source leave the object they
  read when the stored record is malformed: \<^verbatim>\<open>strcpy\<close> from a name without terminator,
  and \<^verbatim>\<open>uid[j]\<close> for \<^verbatim>\<open>j < uidSize\<close> when the stored size exceeds the array.
\<close>

fun load_cards :: "eeprom \<Rightarrow> nat \<Rightarrow> nat \<Rightarrow> state \<Rightarrow> fault + state" where
  "load_cards e i 0 s = Inr s"
| "load_cards e i (Suc k) s =
     (let startAddress = EEPROM_ADDR_CARDS_DATA + i * sizeof_CardForEEPROM;
          card_from_eeprom = EEPROM_get_card e startAddress
      in case c_string (ee_name card_from_eeprom) of
           None \<Rightarrow> Inl UnterminatedName
         | Some nm \<Rightarrow>
             if unat (ee_uidSize card_from_eeprom) > UID_MAX_SIZE then Inl UidIndexOutOfRange
             else
               let c = \<lparr>uid = ee_uid card_from_eeprom, uidSize = ee_uidSize card_from_eeprom,
                        name = nm, scanCount = 0\<rparr>;
                   s1 = s\<lparr>registeredCards := (registeredCards s)[i := c]\<rparr>;
                   s2 = println (''Loaded Card '' @ print_int (int i + 1) @ '': UID=''
                          @ uid_hex (take (unat (uidSize c)) (uid c)) @ '', Name='' @ name c) s1
               in load_cards e (Suc i) k s2)"

definition loadCardsFromEEPROM :: "eeprom \<Rightarrow> state \<Rightarrow> fault + state" where
  "loadCardsFromEEPROM e s =
     (let s1 = s\<lparr>numLoadedCards := e EEPROM_ADDR_NUM_CARDS\<rparr>
      in if unat (numLoadedCards s1) > MAX_REGISTERED_CARDS \<or> int (unat (numLoadedCards s1)) < 0
         then Inr (println ''Error: Invalid card count in EEPROM, resetting to 0.'' s1
                     \<lparr>numLoadedCards := 0\<rparr>)
         else case load_cards e 0 (unat (numLoadedCards s1)) s1 of
                Inl f \<Rightarrow> Inl f
              | Inr s2 \<Rightarrow>
                  Inr (println (''Total cards loaded: '' @ dec (unat (numLoadedCards s2))) s2))"

subsection \<open>setup\<close>

definition blank_card :: RegisteredCard where
  "blank_card = \<lparr>uid = replicate UID_MAX_SIZE 0, uidSize = 0, name = [], scanCount = 0\<rparr>"

text \<open>The globals as the sketch initialises them, before \<^verbatim>\<open>setup()\<close> runs.\<close>

definition initial_state :: state where
  "initial_state =
     \<lparr>hasRotated = False, lastMessageTime = 0, passengerCount = 0, ir1Triggered = False,
      ir2Triggered = False, lastTriggerTime = 0, emergencyPressCount = 0,
      lastScannedName = ''None'', lastScannedCount = 0, overloadCount = 0, numLoadedCards = 0,
      buzzerOnTime = 0, lastButtonState = HIGH, lastEmergencyTime = 0, emergencyMode = False,
      servoOpen = False, isOverloaded = False,
      registeredCards = replicate MAX_REGISTERED_CARDS blank_card,
      clock = 0, servo = 0, buzzer = LOW, tone = None, lcd = ([], []), serial_out = []\<rparr>"

text \<open>\<^verbatim>\<open>setup()\<close> up to the EEPROM check: serial port, display, servo, buzzer.\<close>

definition setup_hardware :: state where
  "setup_hardware =
     (let s1 = println ''System Ready: Bus System Operational.'' initial_state;
          s2 = updateLCD (lcd_print 0 ''Passenger Count:'' (lcd_clear s1))
      in s2\<lparr>servo := 60, buzzer := LOW\<rparr>)"

definition setup_bus :: "(nat \<Rightarrow> nat \<Rightarrow> u8) \<Rightarrow> eeprom \<Rightarrow> fault + eeprom \<times> state" where
  "setup_bus junk e =
     (let s3 = setup_hardware;
          storedMagicValue = EEPROM_get_u16 e EEPROM_ADDR_MAGIC;
          (e1, s4) =
            (if storedMagicValue \<noteq> MAGIC_VALUE then
               let (e', s') = writePredefinedCardsToEEPROM junk
                     (e, println ''EEPROM not initialized. Writing predefined cards...'' s3)
               in (EEPROM_put_u16 e' EEPROM_ADDR_MAGIC MAGIC_VALUE, s')
             else (e, println ''EEPROM already initialized. Loading cards...'' s3))
      in case loadCardsFromEEPROM e1 s4 of
           Inl f \<Rightarrow> Inl f
         | Inr s5 \<Rightarrow> Inr (e1, s5))"

subsection \<open>findCardIndex, activateServo, checkAndCloseServo\<close>

definition uid_match :: "RegisteredCard \<Rightarrow> u8 list \<Rightarrow> nat \<Rightarrow> bool" where
  "uid_match c u n = list_all (\<lambda>j. uid c ! j = u ! j) [0 ..< n]"

text \<open>The index of the first matching card, \<open>None\<close> for \<^verbatim>\<open>-1\<close>.\<close>

definition findCardIndex :: "state \<Rightarrow> u8 list \<Rightarrow> u8 \<Rightarrow> nat option" where
  "findCardIndex s u n =
     find (\<lambda>i. uidSize (registeredCards s ! i) = n \<and> uid_match (registeredCards s ! i) u (unat n))
       [0 ..< unat (numLoadedCards s)]"

definition activateServo :: "state \<Rightarrow> state" where
  "activateServo s =
     (println ''Activating servo...'' s)
       \<lparr>servo := 120, servoOpen := True, lastMessageTime := clock s\<rparr>"

definition gate_blocked_message :: "state \<Rightarrow> state" where
  "gate_blocked_message s =
     lcd_print 1 ''Please move away'' (lcd_print 0 ''Gate blocked!'' (lcd_clear s))"

definition count_screen :: "state \<Rightarrow> state" where
  "count_screen s = updateLCD (lcd_print 0 ''Passenger Count:'' (lcd_clear s))"

definition checkAndCloseServo :: "level \<times> level \<Rightarrow> state \<Rightarrow> state" where
  "checkAndCloseServo ir s =
     (if servoOpen s then
        if since s (lastMessageTime s) > TIMEOUT_MS + GATE_BLOCK_CHECK_DELAY_MS then
          if fst ir = HIGH \<and> snd ir = HIGH then
            count_screen (println ''Servo closed successfully.''
                            (s\<lparr>servo := 60, servoOpen := False\<rparr>))
          else
            (gate_blocked_message (println ''Cannot close servo: Gate is blocked.'' s))
              \<lparr>lastMessageTime := clock s\<rparr>
        else s
      else s)"

subsection \<open>handleEmergencyButton\<close>

definition handleEmergencyButton :: "level \<Rightarrow> state \<Rightarrow> state" where
  "handleEmergencyButton buttonState s =
     (let s1 = (if buttonState = LOW \<and> lastButtonState s = HIGH then
                  lcd_print 1 ''Alert! Button!'' (lcd_print 0 ''EMERGENCY!!!'' (lcd_clear
                    (println ''Emergency button pressed! Buzzer and LCD activated.''
                      (s\<lparr>emergencyMode := True, lastEmergencyTime := clock s,
                         emergencyPressCount := emergencyPressCount s + 1,
                         tone := Some (1000, 200)\<rparr>))))
                else s);
          s2 = (if emergencyMode s1 \<and> since s1 (lastEmergencyTime s1) > EMERGENCY_TIMEOUT_MS then
                  println ''Emergency alert timed out.''
                    (count_screen (s1\<lparr>emergencyMode := False, tone := None\<rparr>))
                else s1)
      in s2\<lparr>lastButtonState := buttonState\<rparr>)"

subsection \<open>The sections of loop\<close>

text \<open>Handle Bluetooth commands (lines 136 to 147).\<close>

definition handle_bluetooth :: "string option \<Rightarrow> state \<Rightarrow> state" where
  "handle_bluetooth available s =
     (case available of
        None \<Rightarrow> s
      | Some msg \<Rightarrow>
          let s1 = (println (''Received via Bluetooth: '' @ msg) s)\<lparr>lastMessageTime := clock s\<rparr>
          in if indexOf msg ''Hello from Master'' \<noteq> None \<and> \<not> hasRotated s1 then
               sendAdminData ((delay 6000 s1)\<lparr>servo := 120, hasRotated := True\<rparr>)
             else s1)"

text \<open>Timeout for Bluetooth control (lines 150 to 170).\<close>

definition bluetooth_timeout :: "level \<times> level \<Rightarrow> state \<Rightarrow> state" where
  "bluetooth_timeout ir s =
     (if hasRotated s then
        if since s (lastMessageTime s) > TIMEOUT_MS then
          if since s (lastMessageTime s) > TIMEOUT_MS + GATE_BLOCK_CHECK_DELAY_MS then
            if fst ir = HIGH \<and> snd ir = HIGH then
              count_screen ((println ''Bluetooth timeout -> Reset servo to 0'' s)
                              \<lparr>servo := 60, hasRotated := False\<rparr>)
            else gate_blocked_message s
          else s
        else s
      else s)"

text \<open>
  Handle RFID card scanning (lines 173 to 196). The reader library delivers a UID of at most
  ten bytes, so the loop that prints it stays inside \<^verbatim>\<open>uidByte\<close>.
\<close>

definition handle_rfid :: "RfidUid option \<Rightarrow> state \<Rightarrow> state" where
  "handle_rfid present s =
     (if \<not> hasRotated s then
        case present of
          None \<Rightarrow> s
        | Some u \<Rightarrow>
            let s1 = println (''Scanned Card UID:''
                       @ uid_hex (take (unat (size_uid u)) (uidByte u))) s
            in (case findCardIndex s1 (uidByte u) (size_uid u) of
                  Some cardIndex \<Rightarrow>
                    let c = registeredCards s1 ! cardIndex;
                        s2 = println (''Access Granted! Welcome, '' @ name c) s1;
                        c' = c\<lparr>scanCount := scanCount c + 1\<rparr>;
                        s3 = s2\<lparr>registeredCards := (registeredCards s2)[cardIndex := c'],
                                lastScannedName := name c', lastScannedCount := scanCount c'\<rparr>
                    in activateServo s3
                | None \<Rightarrow> println ''Access Denied: Unknown Card.'' s1)
      else s)"

text \<open>IR sensor logic for passenger counting (lines 199 to 233), in its five steps.\<close>

definition arm_entry :: "level \<times> level \<Rightarrow> state \<Rightarrow> state" where
  "arm_entry ir s =
     (if fst ir = LOW \<and> \<not> ir1Triggered s \<and> \<not> ir2Triggered s then
        s\<lparr>ir1Triggered := True, lastTriggerTime := clock s\<rparr>
      else s)"

definition count_entry :: "level \<times> level \<Rightarrow> state \<Rightarrow> state" where
  "count_entry ir s =
     (if ir1Triggered s \<and> snd ir = LOW \<and> since s (lastTriggerTime s) < SEQ_TIMEOUT_MS then
        let s1 = updateLCD
                   (s\<lparr>passengerCount :=
                        (if passengerCount s = INT_MAX then INT_MIN else passengerCount s + 1)\<rparr>);
            s2 = println (''Entry -> Count: '' @ print_int (passengerCount s1)) s1
        in delay IR_DEBOUNCE_MS (resetIRStates s2)
      else s)"

definition arm_exit :: "level \<times> level \<Rightarrow> state \<Rightarrow> state" where
  "arm_exit ir s =
     (if snd ir = LOW \<and> \<not> ir2Triggered s \<and> \<not> ir1Triggered s then
        s\<lparr>ir2Triggered := True, lastTriggerTime := clock s\<rparr>
      else s)"

definition count_exit :: "level \<times> level \<Rightarrow> state \<Rightarrow> state" where
  "count_exit ir s =
     (if ir2Triggered s \<and> fst ir = LOW \<and> since s (lastTriggerTime s) < SEQ_TIMEOUT_MS then
        let s0 = (if passengerCount s > 0 then s\<lparr>passengerCount := passengerCount s - 1\<rparr> else s);
            s1 = updateLCD s0;
            s2 = println (''Exit  -> Count: '' @ print_int (passengerCount s1)) s1
        in delay IR_DEBOUNCE_MS (resetIRStates s2)
      else s)"

definition sequence_timeout :: "state \<Rightarrow> state" where
  "sequence_timeout s =
     (if (ir1Triggered s \<or> ir2Triggered s) \<and> since s (lastTriggerTime s) > SEQ_TIMEOUT_MS then
        resetIRStates s
      else s)"

definition count_passengers :: "level \<times> level \<Rightarrow> state \<Rightarrow> state" where
  "count_passengers ir s =
     sequence_timeout (count_exit ir (arm_exit ir (count_entry ir (arm_entry ir s))))"

text \<open>Turn off the overload buzzer after its duration (lines 236 to 239).\<close>

definition buzzer_timeout :: "state \<Rightarrow> state" where
  "buzzer_timeout s =
     (if buzzer s = HIGH \<and> since s (buzzerOnTime s) > BUZZER_DURATION_MS then
        println ''Overload buzzer timed out, turning OFF.'' (s\<lparr>buzzer := LOW\<rparr>)
      else s)"

subsection \<open>loop\<close>

text \<open>What a pass does when the emergency mode is off.\<close>

definition normal_evaluation :: "input \<Rightarrow> state \<Rightarrow> state" where
  "normal_evaluation i s =
     checkAndCloseServo (ir_close i) (buzzer_timeout
       (count_passengers (ir_count i)
          (handle_rfid (card i) (bluetooth_timeout (ir_timeout i)
             (handle_bluetooth (serial_in i) s)))))"

definition loop :: "input \<Rightarrow> state \<Rightarrow> state" where
  "loop i s =
     (let s1 = handleEmergencyButton (button i) (s\<lparr>clock := now i\<rparr>)
      in if \<not> emergencyMode s1 then normal_evaluation i s1 else s1)"

text \<open>The passes of \<^verbatim>\<open>loop()\<close> over a sequence of inputs.\<close>

fun run :: "input list \<Rightarrow> state \<Rightarrow> state" where
  "run [] s = s"
| "run (i # is) s = run is (loop i s)"

subsection \<open>Notions used to state the properties\<close>

text \<open>The stored record \<open>i\<close> of the EEPROM decodes to the card \<open>c\<close>.\<close>

definition card_address :: "nat \<Rightarrow> nat" where
  "card_address i = EEPROM_ADDR_CARDS_DATA + i * sizeof_CardForEEPROM"

definition stored_card :: "eeprom \<Rightarrow> nat \<Rightarrow> RegisteredCard \<Rightarrow> bool" where
  "stored_card e i c =
     (let r = EEPROM_get_card e (card_address i)
      in ee_uid r = uid c \<and> ee_uidSize r = uidSize c \<and> unat (uidSize c) \<le> UID_MAX_SIZE \<and>
         c_string (ee_name r) = Some (name c))"

definition store_holds :: "eeprom \<Rightarrow> RegisteredCard list \<Rightarrow> bool" where
  "store_holds e cs = list_all (\<lambda>i. stored_card e i (cs ! i)) [0 ..< length cs]"

text \<open>A card as it is after loading: its scan count starts at 0.\<close>

definition loaded :: "RegisteredCard \<Rightarrow> RegisteredCard" where
  "loaded c = c\<lparr>scanCount := 0\<rparr>"

definition loaded_line :: "nat \<Rightarrow> RegisteredCard \<Rightarrow> string" where
  "loaded_line i c =
     ''Loaded Card '' @ print_int (int i + 1) @ '': UID=''
       @ uid_hex (take (unat (uidSize c)) (uid c)) @ '', Name='' @ name c"

text \<open>The EEPROM after the first boot.\<close>

definition seeded :: "(nat \<Rightarrow> nat \<Rightarrow> u8) \<Rightarrow> eeprom \<Rightarrow> eeprom" where
  "seeded junk e =
     EEPROM_put_u16
       (write_cards junk 0 (unat NUM_PREDEFINED_USERS)
          (e(EEPROM_ADDR_NUM_CARDS := NUM_PREDEFINED_USERS)))
       EEPROM_ADDR_MAGIC MAGIC_VALUE"

text \<open>The registry: the first \<^verbatim>\<open>numLoadedCards\<close> entries of \<^verbatim>\<open>registeredCards\<close>.\<close>

definition loaded_cards :: "state \<Rightarrow> RegisteredCard list" where
  "loaded_cards s = take (unat (numLoadedCards s)) (registeredCards s)"

text \<open>The wire format of a snapshot that lists the cards \<open>cs\<close>.\<close>

definition snapshot_pair :: "RegisteredCard \<Rightarrow> string" where
  "snapshot_pair c = '','' @ name c @ '','' @ print_uint (scanCount c)"

definition snapshot_line :: "state \<Rightarrow> RegisteredCard list \<Rightarrow> string" where
  "snapshot_line s cs =
     ''D:'' @ print_int (passengerCount s) @ '','' @ print_uint (emergencyPressCount s)
       @ '','' @ print_uint (overloadCount s) @ concat (map snapshot_pair cs)"

text \<open>The loaded cards that were used in this session.\<close>

definition used_cards :: "state \<Rightarrow> RegisteredCard list" where
  "used_cards s = filter (\<lambda>c. 0 < scanCount c) (loaded_cards s)"

text \<open>
  Conditions that hold in every state the controller reaches: the registry stays inside
  \<^verbatim>\<open>registeredCards\<close>, and the overload flag agrees with the occupancy.
\<close>

definition registry_ok :: "state \<Rightarrow> bool" where
  "registry_ok s \<longleftrightarrow>
     length (registeredCards s) = MAX_REGISTERED_CARDS \<and>
     unat (numLoadedCards s) \<le> MAX_REGISTERED_CARDS"

definition counter_ok :: "state \<Rightarrow> bool" where
  "counter_ok s \<longleftrightarrow> (isOverloaded s \<longleftrightarrow> 5 < passengerCount s)"

definition state_ok :: "state \<Rightarrow> bool" where
  "state_ok s \<longleftrightarrow> registry_ok s \<and> counter_ok s"

definition entry_condition :: "level \<times> level \<Rightarrow> state \<Rightarrow> bool" where
  "entry_condition ir s \<longleftrightarrow>
     ir1Triggered s \<and> snd ir = LOW \<and> since s (lastTriggerTime s) < SEQ_TIMEOUT_MS"

text \<open>
  The state in which a pass reaches the counting logic, the condition under which the counting
  logic counts an entry, and whether a pass counts one.
\<close>

definition reaches_counting :: "input \<Rightarrow> state \<Rightarrow> state" where
  "reaches_counting i s =
     handle_rfid (card i) (bluetooth_timeout (ir_timeout i) (handle_bluetooth (serial_in i)
       (handleEmergencyButton (button i) (s\<lparr>clock := now i\<rparr>))))"

definition entry_counted :: "input \<Rightarrow> state \<Rightarrow> bool" where
  "entry_counted i s \<longleftrightarrow>
     \<not> emergencyMode (handleEmergencyButton (button i) (s\<lparr>clock := now i\<rparr>)) \<and>
     (let s1 = arm_entry (ir_count i) (reaches_counting i s)
      in ir1Triggered s1 \<and> snd (ir_count i) = LOW \<and>
         since s1 (lastTriggerTime s1) < SEQ_TIMEOUT_MS)"

text \<open>
  No pass of a run counts an entry while the occupancy is \<open>INT_MAX\<close>, the largest value of
  the 16-bit counter.
\<close>

fun entries_fit :: "input list \<Rightarrow> state \<Rightarrow> bool" where
  "entries_fit [] s = True"
| "entries_fit (i # is) s =
     (\<not> (passengerCount s = INT_MAX \<and> entry_counted i s) \<and> entries_fit is (loop i s))"

text \<open>
  A state in which only the counting logic has work to do: no emergency, the button released,
  the gate closed and no crossing sequence armed.
\<close>

definition quiet :: "state \<Rightarrow> bool" where
  "quiet s \<longleftrightarrow>
     \<not> emergencyMode s \<and> lastButtonState s = HIGH \<and> \<not> hasRotated s \<and> \<not> servoOpen s \<and>
     \<not> ir1Triggered s \<and> \<not> ir2Triggered s"

text \<open>
  A pass sees the emergency button pressed when the pin reads LOW and read HIGH in the pass
  before. \<open>resumed\<close> is the state in which the evaluation goes on in the pass that ends the
  emergency mode.
\<close>

definition pressed :: "input \<Rightarrow> state \<Rightarrow> bool" where
  "pressed i s \<longleftrightarrow> button i = LOW \<and> lastButtonState s = HIGH"

definition resumed :: "input \<Rightarrow> state \<Rightarrow> state" where
  "resumed i s =
     (println ''Emergency alert timed out.''
        (count_screen (s\<lparr>clock := now i, emergencyMode := False, tone := None\<rparr>)))
       \<lparr>lastButtonState := button i\<rparr>"

text \<open>
  A line is waiting in this pass, or the timestamp that the last line set is at most
  \<^verbatim>\<open>TIMEOUT_MS\<close> old; and the same at every pass of a run.
\<close>

definition line_in_last_10s :: "input \<Rightarrow> state \<Rightarrow> bool" where
  "line_in_last_10s i s \<longleftrightarrow>
     serial_in i \<noteq> None \<or> unat (now i - lastMessageTime s) \<le> TIMEOUT_MS"

fun lines_keep_arriving :: "input list \<Rightarrow> state \<Rightarrow> bool" where
  "lines_keep_arriving [] s = True"
| "lines_keep_arriving (i # is) s =
     (line_in_last_10s i s \<and> lines_keep_arriving is (loop i s))"

text \<open>The variables that decide whether the gate closes.\<close>

definition gate_fields :: "state \<Rightarrow> bool \<times> nat \<times> bool \<times> u32" where
  "gate_fields s = (hasRotated s, servo s, servoOpen s, lastMessageTime s)"

subsection \<open>Example inputs\<close>

text \<open>
  An erased EEPROM, an EEPROM whose marker is valid but whose count is not, a stack without
  garbage, and the state in which \<^verbatim>\<open>setup()\<close> leaves the controller on its first boot.
\<close>

definition erased :: eeprom where
  "erased = (\<lambda>a. 0xFF)"

definition bad_count :: eeprom where
  "bad_count = erased(0 := 0xCB, 1 := 0xAF)"

definition no_junk :: "nat \<Rightarrow> nat \<Rightarrow> u8" where
  "no_junk = (\<lambda>i j. 0)"

definition factory_state :: state where
  "factory_state =
     \<lparr>hasRotated = False, lastMessageTime = 0, passengerCount = 0, ir1Triggered = False,
      ir2Triggered = False, lastTriggerTime = 0, emergencyPressCount = 0,
      lastScannedName = ''None'', lastScannedCount = 0, overloadCount = 0, numLoadedCards = 3,
      buzzerOnTime = 0, lastButtonState = HIGH, lastEmergencyTime = 0, emergencyMode = False,
      servoOpen = False, isOverloaded = False,
      registeredCards = predefinedUsers @ [blank_card, blank_card],
      clock = 0, servo = 60, buzzer = LOW, tone = None,
      lcd = (''Passenger Count:'', ''Count: 0        ''),
      serial_out =
        [''System Ready: Bus System Operational.'',
         ''EEPROM not initialized. Writing predefined cards...'',
         ''Predefined cards written to EEPROM.'',
         ''Loaded Card 1: UID= F3 97 17 2D, Name=BUS DRIVER'',
         ''Loaded Card 2: UID= 19 78 97 3F, Name=HELPER'',
         ''Loaded Card 3: UID= 11 22 33 44, Name=STATION MASTER'',
         ''Total cards loaded: 3'']\<rparr>"

text \<open>
  Passes in which nothing but the sensors is active, the three passes of one passenger
  entering (sensor 1, then sensor 2, then both clear after the sequence window), and the
  states after five and six passengers have entered since the first boot.
\<close>

definition sense :: "u32 \<Rightarrow> level \<Rightarrow> level \<Rightarrow> input" where
  "sense t r1 r2 =
     \<lparr>now = t, button = HIGH, serial_in = None, card = None,
      ir_timeout = (r1, r2), ir_count = (r1, r2), ir_close = (r1, r2)\<rparr>"

definition entering :: "u32 \<Rightarrow> input list" where
  "entering t = [sense t LOW HIGH, sense (t + 100) HIGH LOW, sense (t + 1500) HIGH HIGH]"

definition five_entries :: "input list" where
  "five_entries = entering 1000 @ entering 3000 @ entering 5000 @ entering 7000 @ entering 9000"


definition five_aboard :: state where
  "five_aboard =
     factory_state
       \<lparr>passengerCount := 5, isOverloaded := False, buzzer := LOW, buzzerOnTime := 0,
        overloadCount := 0, lcd := (''Passenger Count:'', ''Count: 5        ''),
        serial_out := serial_out factory_state @
          [''Entry -> Count: 1'', ''Entry -> Count: 2'', ''Entry -> Count: 3'',
           ''Entry -> Count: 4'', ''Entry -> Count: 5''],
        lastTriggerTime := 9150, clock := 10500, lastButtonState := HIGH,
        ir1Triggered := False, ir2Triggered := False\<rparr>"



text \<open>
  The three passes of one passenger leaving (sensor 2, then sensor 1, then both clear), a
  state with an exit sequence armed at the current time, and \<open>n\<close> passengers entering one
  after the other, 2000 ms apart, the first at time \<open>t\<close>.
\<close>

definition leaving :: "u32 \<Rightarrow> input list" where
  "leaving t = [sense t HIGH LOW, sense (t + 100) LOW HIGH, sense (t + 1500) HIGH HIGH]"

definition exit_armed :: "state \<Rightarrow> state" where
  "exit_armed s = s\<lparr>ir2Triggered := True, lastTriggerTime := clock s\<rparr>"

fun crossings :: "nat \<Rightarrow> u32 \<Rightarrow> input list" where
  "crossings 0 t = []"
| "crossings (Suc n) t = crossings n t @ entering (t + of_nat (2000 * n))"

text \<open>
  A press of the emergency button and the state it leads to after the first boot; a serial
  line, the heartbeat of the station as \<^verbatim>\<open>readStringUntil\<close> returns it, the card of the
  bus driver and a scan of a card; the gate opened by that card and by the heartbeat; a pass
  that finds sensor 1 blocked at both closing checks; and a station that keeps sending lines
  other than the heartbeat.
\<close>

definition press :: "u32 \<Rightarrow> input" where
  "press t =
     \<lparr>now = t, button = LOW, serial_in = None, card = None,
      ir_timeout = (HIGH, HIGH), ir_count = (HIGH, HIGH), ir_close = (HIGH, HIGH)\<rparr>"

definition alarmed :: state where
  "alarmed =
     factory_state
       \<lparr>clock := 1000, emergencyMode := True, lastEmergencyTime := 1000,
        emergencyPressCount := 1, tone := Some (1000, 200),
        serial_out := serial_out factory_state @
          [''Emergency button pressed! Buzzer and LCD activated.''],
        lcd := (''EMERGENCY!!!'', ''Alert! Button!''), lastButtonState := LOW\<rparr>"

definition line :: "u32 \<Rightarrow> string \<Rightarrow> input" where
  "line t msg =
     \<lparr>now = t, button = HIGH, serial_in = Some msg, card = None,
      ir_timeout = (HIGH, HIGH), ir_count = (HIGH, HIGH), ir_close = (HIGH, HIGH)\<rparr>"

definition heartbeat :: "u32 \<Rightarrow> input" where
  "heartbeat t = line t (''Hello from Master'' @ [CHR 0x0D])"

definition driver_card :: RfidUid where
  "driver_card = \<lparr>uidByte = [0xF3, 0x97, 0x17, 0x2D, 0, 0, 0, 0, 0, 0], size_uid = 4\<rparr>"

definition scan :: "u32 \<Rightarrow> RfidUid \<Rightarrow> input" where
  "scan t u =
     \<lparr>now = t, button = HIGH, serial_in = None, card = Some u,
      ir_timeout = (HIGH, HIGH), ir_count = (HIGH, HIGH), ir_close = (HIGH, HIGH)\<rparr>"

definition card_open :: state where
  "card_open =
     factory_state
       \<lparr>clock := 1000, lastButtonState := HIGH,
        registeredCards :=
          [\<lparr>uid = [0xF3, 0x97, 0x17, 0x2D, 0, 0, 0, 0, 0, 0], uidSize = 4,
             name = ''BUS DRIVER'', scanCount = 1\<rparr>,
           \<lparr>uid = [0x19, 0x78, 0x97, 0x3F, 0, 0, 0, 0, 0, 0], uidSize = 4,
             name = ''HELPER'', scanCount = 0\<rparr>,
           \<lparr>uid = [0x11, 0x22, 0x33, 0x44, 0, 0, 0, 0, 0, 0], uidSize = 4,
             name = ''STATION MASTER'', scanCount = 0\<rparr>,
           blank_card, blank_card],
        lastScannedName := ''BUS DRIVER'', lastScannedCount := 1,
        serial_out := serial_out factory_state @
          [''Scanned Card UID: F3 97 17 2D'', ''Access Granted! Welcome, BUS DRIVER'',
           ''Activating servo...''],
        servo := 120, servoOpen := True, lastMessageTime := 1000\<rparr>"

definition remote_open :: state where
  "remote_open =
     factory_state
       \<lparr>lastButtonState := HIGH, lastMessageTime := 1000, clock := 7000, servo := 120,
        hasRotated := True,
        serial_out := serial_out factory_state @
          [''Received via Bluetooth: Hello from Master'' @ [CHR 0x0D],
           ''D:0,0,0,BUS DRIVER,0,HELPER,0,STATION MASTER,0'',
           ''Sent to Admin: D:0,0,0,BUS DRIVER,0,HELPER,0,STATION MASTER,0'']\<rparr>"

definition blocked :: "u32 \<Rightarrow> input" where
  "blocked t =
     \<lparr>now = t, button = HIGH, serial_in = None, card = None,
      ir_timeout = (LOW, HIGH), ir_count = (HIGH, HIGH), ir_close = (LOW, HIGH)\<rparr>"

definition chatter :: "input list" where
  "chatter = [line 9000 ''status?'', line 17000 ''status?'', sense 26000 HIGH HIGH]"

definition still_open :: state where
  "still_open =
     remote_open
       \<lparr>serial_out := serial_out remote_open @
          [''Received via Bluetooth: status?'', ''Received via Bluetooth: status?''],
        lastMessageTime := 17000, clock := 26000\<rparr>"

section \<open>Properties\<close>

lemmas settings =
  TIMEOUT_MS_def GATE_BLOCK_CHECK_DELAY_MS_def MAX_NAME_LENGTH_def MAX_REGISTERED_CARDS_def
  UID_MAX_SIZE_def SEQ_TIMEOUT_MS_def IR_DEBOUNCE_MS_def BUZZER_DURATION_MS_def
  EMERGENCY_TIMEOUT_MS_def INT_MAX_def INT_MIN_def EEPROM_ADDR_MAGIC_def EEPROM_ADDR_NUM_CARDS_def
  EEPROM_ADDR_CARDS_DATA_def

subsection \<open>Evaluation rules\<close>

lemma dec_small: "n < 10 \<Longrightarrow> dec n = [digit n]"
  by (simp add: dec.simps)

lemma dec_big: "\<not> n < 10 \<Longrightarrow> dec n = dec (n div 10) @ [digit (n mod 10)]"
  by (subst dec.simps) simp

lemma hex_small: "n < 16 \<Longrightarrow> hex n = [digit n]"
  by (simp add: hex.simps)

lemma hex_big: "\<not> n < 16 \<Longrightarrow> hex n = hex (n div 16) @ [digit (n mod 16)]"
  by (subst hex.simps) simp

lemma replicate_pos: "0 < n \<Longrightarrow> replicate n x = x # replicate (n - 1) x"
  by (cases n) simp_all

lemmas print_simps = dec_small dec_big hex_small hex_big digit_def print_int_def print_uint_def
  replicate_pos

subsection \<open>The registry in the EEPROM\<close>

lemma EEPROM_put_bytes_apply:
  "EEPROM_put_bytes e a bs k = (if a \<le> k \<and> k < a + length bs then bs ! (k - a) else e k)"
proof (induction bs arbitrary: e a)
  case Nil
  then show ?case by auto
next
  case (Cons b bs)
  show ?case
    unfolding EEPROM_put_bytes.simps Cons.IH by (auto simp: nth_Cons')
qed

lemma get_bytes_put_bytes:
  "length bs = n \<Longrightarrow> EEPROM_get_bytes (EEPROM_put_bytes e a bs) a n = bs"
  by (auto simp: EEPROM_get_bytes_def EEPROM_put_bytes_apply intro!: nth_equalityI)

lemma char_byte_roundtrip: "char_of_byte (byte_of_char c) = c"
  by (simp add: char_of_byte_def byte_of_char_def unat_of_nat)

lemma byte_of_char_eq_0: "byte_of_char c = 0 \<longleftrightarrow> c = CHR 0x00"
proof
  assume "byte_of_char c = 0"
  then have "c = char_of_byte 0" by (metis char_byte_roundtrip)
  then show "c = CHR 0x00" by (simp add: char_of_byte_def char_of_eq_iff)
next
  assume "c = CHR 0x00"
  then show "byte_of_char c = 0" by (simp add: byte_of_char_def)
qed

lemma c_string_strcpy:
  assumes "CHR 0x00 \<notin> set src"
  shows "c_string (strcpy_into old src) = Some src"
proof -
  let ?bs = "map byte_of_char src"
  have nz: "\<forall>b\<in>set ?bs. b \<noteq> 0"
    using assms by (auto simp: byte_of_char_eq_0)
  have shape: "strcpy_into old src = ?bs @ 0 # drop (Suc (length src)) old"
    by (simp add: strcpy_into_def Let_def)
  have "takeWhile (\<lambda>b. b \<noteq> 0) (?bs @ 0 # drop (Suc (length src)) old)
          = ?bs @ takeWhile (\<lambda>b. b \<noteq> 0) (0 # drop (Suc (length src)) old)"
    by (rule takeWhile_append2) (use nz in blast)
  then have "takeWhile (\<lambda>b. b \<noteq> 0) (strcpy_into old src) = ?bs"
    unfolding shape by simp
  moreover have "map char_of_byte ?bs = src"
    by (simp add: char_byte_roundtrip comp_def)
  moreover have "0 \<in> set (strcpy_into old src)"
    unfolding shape by simp
  ultimately show ?thesis by (simp add: c_string_def)
qed

lemma length_strcpy:
  "length src < length old \<Longrightarrow> length (strcpy_into old src) = length old"
  by (simp add: strcpy_into_def Let_def)

lemma get_bytes_put_bytes_part:
  "a \<le> b \<Longrightarrow> b + n \<le> a + length bs \<Longrightarrow>
   EEPROM_get_bytes (EEPROM_put_bytes e a bs) b n = take n (drop (b - a) bs)"
  by (auto simp: EEPROM_get_bytes_def EEPROM_put_bytes_apply intro!: nth_equalityI)

lemma get_card_put_bytes:
  assumes "length (ee_uid c) = UID_MAX_SIZE" and "length (ee_name c) = MAX_NAME_LENGTH + 1"
  shows "EEPROM_get_card (EEPROM_put_bytes e a (card_bytes c)) a = c"
proof -
  let ?e = "EEPROM_put_bytes e a (card_bytes c)"
  have len: "length (card_bytes c) = UID_MAX_SIZE + 1 + (MAX_NAME_LENGTH + 1)"
    using assms by (simp add: card_bytes_def)
  have "EEPROM_get_bytes ?e a UID_MAX_SIZE = take UID_MAX_SIZE (drop (a - a) (card_bytes c))"
    by (rule get_bytes_put_bytes_part) (simp_all add: len)
  then have u: "EEPROM_get_bytes ?e a UID_MAX_SIZE = ee_uid c"
    using assms by (simp add: card_bytes_def)
  have "EEPROM_get_bytes ?e (a + UID_MAX_SIZE + 1) (MAX_NAME_LENGTH + 1)
          = take (MAX_NAME_LENGTH + 1) (drop (a + UID_MAX_SIZE + 1 - a) (card_bytes c))"
    by (rule get_bytes_put_bytes_part) (simp_all add: len)
  then have n: "EEPROM_get_bytes ?e (a + UID_MAX_SIZE + 1) (MAX_NAME_LENGTH + 1) = ee_name c"
    using assms by (simp add: card_bytes_def)
  have z: "?e (a + UID_MAX_SIZE) = ee_uidSize c"
    using assms by (simp add: EEPROM_put_bytes_apply card_bytes_def nth_append)
  show ?thesis
    unfolding EEPROM_get_card_def u n z by simp
qed

lemma get_card_frame_bytes:
  assumes "a + sizeof_CardForEEPROM \<le> b \<or> b + length bs \<le> a"
  shows "EEPROM_get_card (EEPROM_put_bytes e b bs) a = EEPROM_get_card e a"
  using assms
  by (auto simp: EEPROM_get_card_def EEPROM_get_bytes_def EEPROM_put_bytes_apply
        sizeof_CardForEEPROM_def settings)

lemma get_card_frame_upd:
  assumes "k < a \<or> a + sizeof_CardForEEPROM \<le> k"
  shows "EEPROM_get_card (e(k := v)) a = EEPROM_get_card e a"
  using assms
  by (auto simp: EEPROM_get_card_def EEPROM_get_bytes_def sizeof_CardForEEPROM_def settings)


lemma loaded_eq:
  "loaded c = \<lparr>uid = uid c, uidSize = uidSize c, name = name c, scanCount = 0\<rparr>"
  by (cases c) (simp add: loaded_def)

lemma loaded_sel:
  "uid (loaded c) = uid c" "uidSize (loaded c) = uidSize c" "name (loaded c) = name c"
  "scanCount (loaded c) = 0"
  by (simp_all add: loaded_def)

lemma load_cards_stored:
  assumes "\<forall>j. i \<le> j \<and> j < i + k \<longrightarrow> stored_card e j (cs ! j)"
    and "i + k \<le> length (registeredCards s)"
  shows "\<exists>R. load_cards e i k s =
           Inr (s\<lparr>registeredCards := R,
                  serial_out := serial_out s @ map (\<lambda>j. loaded_line j (cs ! j)) [i ..< i + k]\<rparr>)
         \<and> length R = length (registeredCards s)
         \<and> (\<forall>j < length R. R ! j = (if i \<le> j \<and> j < i + k then loaded (cs ! j)
                                      else registeredCards s ! j))"
  using assms
proof (induction k arbitrary: i s)
  case 0
  show ?case by (rule exI [of _ "registeredCards s"]) auto
next
  case (Suc k)
  let ?c = "loaded (cs ! i)"
  let ?s2 = "s\<lparr>registeredCards := (registeredCards s)[i := ?c],
               serial_out := serial_out s @ [loaded_line i (cs ! i)]\<rparr>"
  have st: "stored_card e i (cs ! i)" using Suc.prems(1) by simp
  have step: "load_cards e i (Suc k) s = load_cards e (Suc i) k ?s2"
    using st
    by (simp add: stored_card_def card_address_def Let_def loaded_eq loaded_line_def println_def)
  have "\<forall>j. Suc i \<le> j \<and> j < Suc i + k \<longrightarrow> stored_card e j (cs ! j)"
    using Suc.prems(1) by simp
  moreover have "Suc i + k \<le> length (registeredCards ?s2)"
    using Suc.prems(2) by simp
  ultimately obtain R where
    R: "load_cards e (Suc i) k ?s2 =
          Inr (?s2\<lparr>registeredCards := R,
                   serial_out := serial_out ?s2 @ map (\<lambda>j. loaded_line j (cs ! j)) [Suc i ..< Suc i + k]\<rparr>)"
      "length R = length (registeredCards ?s2)"
      "\<forall>j < length R. R ! j = (if Suc i \<le> j \<and> j < Suc i + k then loaded (cs ! j)
                                 else registeredCards ?s2 ! j)"
    using Suc.IH [of "Suc i" ?s2] by blast
  have ser: "[i ..< i + Suc k] = i # [Suc i ..< Suc i + k]"
    by (simp add: upt_conv_Cons)
  have "load_cards e i (Suc k) s =
          Inr (s\<lparr>registeredCards := R,
                 serial_out := serial_out s @ map (\<lambda>j. loaded_line j (cs ! j)) [i ..< i + Suc k]\<rparr>)"
    unfolding step R(1) ser by simp
  moreover have "length R = length (registeredCards s)"
    using R(2) by simp
  moreover have "\<forall>j < length R. R ! j = (if i \<le> j \<and> j < i + Suc k then loaded (cs ! j)
                                          else registeredCards s ! j)"
    using R(2,3) Suc.prems(2) by (auto simp: nth_list_update)
  ultimately show ?case by blast
qed


lemma num_predefined: "unat NUM_PREDEFINED_USERS = 3"
  by (simp add: NUM_PREDEFINED_USERS_def predefinedUsers_def)

lemma card_address_Suc: "card_address (Suc i) = card_address i + sizeof_CardForEEPROM"
  by (simp add: card_address_def)

lemma card_address_ge: "EEPROM_ADDR_CARDS_DATA \<le> card_address i"
  by (simp add: card_address_def)

lemma card_to_store_length:
  assumes "i < length predefinedUsers"
  shows "length (ee_uid (card_to_store junk i)) = UID_MAX_SIZE"
    and "length (ee_name (card_to_store junk i)) = MAX_NAME_LENGTH + 1"
proof -
  have "i = 0 \<or> i = 1 \<or> i = 2"
    using assms by (auto simp: predefinedUsers_def)
  then show "length (ee_uid (card_to_store junk i)) = UID_MAX_SIZE"
    and "length (ee_name (card_to_store junk i)) = MAX_NAME_LENGTH + 1"
    by (auto simp: card_to_store_def predefinedUsers_def settings strcpy_into_def Let_def)
qed

lemma card_bytes_length:
  "i < length predefinedUsers \<Longrightarrow> length (card_bytes (card_to_store junk i)) = sizeof_CardForEEPROM"
  using card_to_store_length [of i junk] by (simp add: card_bytes_def sizeof_CardForEEPROM_def)

lemma get_card_cong:
  assumes "\<And>k. a \<le> k \<Longrightarrow> k < a + sizeof_CardForEEPROM \<Longrightarrow> e k = e' k"
  shows "EEPROM_get_card e a = EEPROM_get_card e' a"
proof -
  have "EEPROM_get_bytes e a UID_MAX_SIZE = EEPROM_get_bytes e' a UID_MAX_SIZE"
    unfolding EEPROM_get_bytes_def
    by (rule map_cong) (auto simp: sizeof_CardForEEPROM_def intro: assms)
  moreover have "e (a + UID_MAX_SIZE) = e' (a + UID_MAX_SIZE)"
    by (rule assms) (simp_all add: sizeof_CardForEEPROM_def)
  moreover have "EEPROM_get_bytes e (a + UID_MAX_SIZE + 1) (MAX_NAME_LENGTH + 1)
                 = EEPROM_get_bytes e' (a + UID_MAX_SIZE + 1) (MAX_NAME_LENGTH + 1)"
    unfolding EEPROM_get_bytes_def
    by (rule map_cong) (auto simp: sizeof_CardForEEPROM_def intro: assms)
  ultimately show ?thesis by (simp add: EEPROM_get_card_def)
qed

lemma write_cards_below:
  "a < card_address i \<Longrightarrow> write_cards junk i k e a = e a"
proof (induction k arbitrary: i e)
  case 0
  then show ?case by simp
next
  case (Suc k)
  have "a < card_address (Suc i)" using Suc.prems by (simp add: card_address_Suc)
  then have "write_cards junk (Suc i) k
               (EEPROM_put_bytes e (card_address i) (card_bytes (card_to_store junk i))) a
             = EEPROM_put_bytes e (card_address i) (card_bytes (card_to_store junk i)) a"
    by (rule Suc.IH)
  also have "\<dots> = e a" using Suc.prems by (simp add: EEPROM_put_bytes_apply)
  finally show ?case by (simp add: card_address_def)
qed

lemma write_cards_get:
  "i \<le> j \<Longrightarrow> j < i + k \<Longrightarrow> i + k \<le> length predefinedUsers \<Longrightarrow>
   EEPROM_get_card (write_cards junk i k e) (card_address j) = card_to_store junk j"
proof (induction k arbitrary: i e)
  case 0
  then show ?case by simp
next
  case (Suc k)
  let ?e1 = "EEPROM_put_bytes e (card_address i) (card_bytes (card_to_store junk i))"
  have unfold: "write_cards junk i (Suc k) e = write_cards junk (Suc i) k ?e1"
    by (simp add: card_address_def)
  show ?case
  proof (cases "j = i")
    case True
    have "i < length predefinedUsers" using Suc.prems by simp
    then have len: "length (ee_uid (card_to_store junk i)) = UID_MAX_SIZE"
        "length (ee_name (card_to_store junk i)) = MAX_NAME_LENGTH + 1"
      by (rule card_to_store_length)+
    have "EEPROM_get_card (write_cards junk (Suc i) k ?e1) (card_address i)
          = EEPROM_get_card ?e1 (card_address i)"
      by (rule get_card_cong) (simp add: write_cards_below card_address_Suc)
    also have "\<dots> = card_to_store junk i"
      by (rule get_card_put_bytes [OF len])
    finally show ?thesis using True unfold by simp
  next
    case False
    then have "Suc i \<le> j" "j < Suc i + k" "Suc i + k \<le> length predefinedUsers"
      using Suc.prems by simp_all
    then show ?thesis unfolding unfold by (rule Suc.IH)
  qed
qed

lemma seeded_card:
  assumes "i < length predefinedUsers"
  shows "EEPROM_get_card (seeded junk e) (card_address i) = card_to_store junk i"
proof -
  have n: "unat NUM_PREDEFINED_USERS = length predefinedUsers"
    by (simp add: NUM_PREDEFINED_USERS_def predefinedUsers_def)
  have ge: "2 < card_address i"
    using card_address_ge [of i] by (simp add: settings)
  have "EEPROM_get_card (seeded junk e) (card_address i)
        = EEPROM_get_card (write_cards junk 0 (length predefinedUsers)
            (e(EEPROM_ADDR_NUM_CARDS := NUM_PREDEFINED_USERS))) (card_address i)"
    using ge by (simp add: seeded_def n EEPROM_put_u16_def get_card_frame_upd settings)
  also have "\<dots> = card_to_store junk i"
    by (rule write_cards_get) (use assms in simp_all)
  finally show ?thesis .
qed

lemma seeded_count: "seeded junk e EEPROM_ADDR_NUM_CARDS = NUM_PREDEFINED_USERS"
proof -
  have "EEPROM_ADDR_NUM_CARDS < card_address 0"
    by (simp add: card_address_def settings)
  then show ?thesis
    by (simp add: seeded_def EEPROM_put_u16_def write_cards_below settings)
qed

lemma seeded_magic: "EEPROM_get_u16 (seeded junk e) EEPROM_ADDR_MAGIC = MAGIC_VALUE"
  by (simp add: seeded_def EEPROM_put_u16_def EEPROM_get_u16_def MAGIC_VALUE_def settings)

lemma seeded_holds: "store_holds (seeded junk e) predefinedUsers"
proof -
  have "stored_card (seeded junk e) i (predefinedUsers ! i)" if "i < length predefinedUsers" for i
  proof -
    have i: "i = 0 \<or> i = 1 \<or> i = 2"
      using that by (auto simp: predefinedUsers_def)
    have nm: "CHR 0x00 \<notin> set (name (predefinedUsers ! i))"
      using i by (auto simp: predefinedUsers_def)
    have sz: "unat (uidSize (predefinedUsers ! i)) \<le> UID_MAX_SIZE"
      using i by (auto simp: predefinedUsers_def settings)
    show ?thesis
      using sz by (simp add: stored_card_def seeded_card [OF that] card_to_store_def
          c_string_strcpy [OF nm])
  qed
  then show ?thesis by (simp add: store_holds_def list_all_iff)
qed


lemma loadCardsFromEEPROM_stored:
  assumes n: "unat (e EEPROM_ADDR_NUM_CARDS) = length cs"
    and le: "length cs \<le> MAX_REGISTERED_CARDS"
    and holds: "store_holds e cs"
    and len: "length (registeredCards s) = MAX_REGISTERED_CARDS"
  shows "\<exists>R. loadCardsFromEEPROM e s =
           Inr (s\<lparr>numLoadedCards := e EEPROM_ADDR_NUM_CARDS, registeredCards := R,
                  serial_out := serial_out s @ map (\<lambda>j. loaded_line j (cs ! j)) [0 ..< length cs]
                                 @ [''Total cards loaded: '' @ dec (length cs)]\<rparr>)
         \<and> length R = MAX_REGISTERED_CARDS
         \<and> take (length cs) R = map loaded cs
         \<and> drop (length cs) R = drop (length cs) (registeredCards s)"
proof -
  let ?s1 = "s\<lparr>numLoadedCards := e EEPROM_ADDR_NUM_CARDS\<rparr>"
  have "\<forall>j. 0 \<le> j \<and> j < 0 + length cs \<longrightarrow> stored_card e j (cs ! j)"
    using holds by (simp add: store_holds_def list_all_iff)
  moreover have "0 + length cs \<le> length (registeredCards ?s1)"
    using le len by simp
  ultimately obtain R where
    R: "load_cards e 0 (length cs) ?s1 =
          Inr (?s1\<lparr>registeredCards := R,
                   serial_out := serial_out ?s1 @ map (\<lambda>j. loaded_line j (cs ! j)) [0 ..< 0 + length cs]\<rparr>)"
      "length R = length (registeredCards ?s1)"
      "\<forall>j < length R. R ! j = (if 0 \<le> j \<and> j < 0 + length cs then loaded (cs ! j)
                                 else registeredCards ?s1 ! j)"
    using load_cards_stored [of 0 "length cs" e cs ?s1] by blast
  have "loadCardsFromEEPROM e s =
          Inr (s\<lparr>numLoadedCards := e EEPROM_ADDR_NUM_CARDS, registeredCards := R,
                 serial_out := serial_out s @ map (\<lambda>j. loaded_line j (cs ! j)) [0 ..< length cs]
                                @ [''Total cards loaded: '' @ dec (length cs)]\<rparr>)"
    using n le R(1) by (simp add: loadCardsFromEEPROM_def Let_def println_def)
  moreover have "length R = MAX_REGISTERED_CARDS"
    using R(2) len by simp
  moreover have "take (length cs) R = map loaded cs"
    using R(2,3) le len by (auto intro!: nth_equalityI)
  moreover have "drop (length cs) R = drop (length cs) (registeredCards s)"
    using R(2,3) le len by (auto intro!: nth_equalityI)
  ultimately show ?thesis by blast
qed

lemma setup_bus_fresh:
  assumes "EEPROM_get_u16 e EEPROM_ADDR_MAGIC \<noteq> MAGIC_VALUE"
  shows "setup_bus junk e =
     (case loadCardsFromEEPROM (seeded junk e)
             (println ''Predefined cards written to EEPROM.''
               (println ''EEPROM not initialized. Writing predefined cards...'' setup_hardware)) of
        Inl f \<Rightarrow> Inl f
      | Inr s \<Rightarrow> Inr (seeded junk e, s))"
proof -
  have "\<not> MAX_REGISTERED_CARDS < unat NUM_PREDEFINED_USERS"
    by (simp add: NUM_PREDEFINED_USERS_def predefinedUsers_def MAX_REGISTERED_CARDS_def)
  then have w: "writePredefinedCardsToEEPROM junk (e, s) =
      (write_cards junk 0 (unat NUM_PREDEFINED_USERS)
         (e(EEPROM_ADDR_NUM_CARDS := NUM_PREDEFINED_USERS)),
       println ''Predefined cards written to EEPROM.'' s)" for s
    by (simp add: writePredefinedCardsToEEPROM_def Let_def)
  show ?thesis
    unfolding seeded_def using assms by (simp add: setup_bus_def w Let_def)
qed

lemma setup_bus_initialised:
  assumes "EEPROM_get_u16 e EEPROM_ADDR_MAGIC = MAGIC_VALUE"
  shows "setup_bus junk e =
     (case loadCardsFromEEPROM e
             (println ''EEPROM already initialized. Loading cards...'' setup_hardware) of
        Inl f \<Rightarrow> Inl f
      | Inr s \<Rightarrow> Inr (e, s))"
  using assms by (simp add: setup_bus_def Let_def)

lemma setup_hardware_cards:
  "registeredCards setup_hardware = replicate MAX_REGISTERED_CARDS blank_card"
  by (simp add: setup_hardware_def Let_def println_def lcd_clear_def lcd_print_def updateLCD_def
      initial_state_def)


lemma setup_hardware_eq:
  "setup_hardware =
     initial_state\<lparr>servo := 60, lcd := (''Passenger Count:'', ''Count: 0        ''),
       serial_out := [''System Ready: Bus System Operational.'']\<rparr>"
  by (simp add: setup_hardware_def Let_def println_def lcd_clear_def lcd_print_def updateLCD_def
      initial_state_def overwrite_def pad16_def print_simps)

lemma first_boot:
  assumes "EEPROM_get_u16 e EEPROM_ADDR_MAGIC \<noteq> MAGIC_VALUE"
  shows "setup_bus junk e = Inr (seeded junk e, factory_state)"
proof -
  let ?s = "println ''Predefined cards written to EEPROM.''
              (println ''EEPROM not initialized. Writing predefined cards...'' setup_hardware)"
  have n: "unat (seeded junk e EEPROM_ADDR_NUM_CARDS) = length predefinedUsers"
    by (simp add: seeded_count NUM_PREDEFINED_USERS_def predefinedUsers_def)
  have le: "length predefinedUsers \<le> MAX_REGISTERED_CARDS"
    by (simp add: predefinedUsers_def MAX_REGISTERED_CARDS_def)
  have len: "length (registeredCards ?s) = MAX_REGISTERED_CARDS"
    by (simp add: println_def setup_hardware_cards)
  obtain R where
    R: "loadCardsFromEEPROM (seeded junk e) ?s =
          Inr (?s\<lparr>numLoadedCards := seeded junk e EEPROM_ADDR_NUM_CARDS, registeredCards := R,
                 serial_out := serial_out ?s
                   @ map (\<lambda>j. loaded_line j (predefinedUsers ! j)) [0 ..< length predefinedUsers]
                   @ [''Total cards loaded: '' @ dec (length predefinedUsers)]\<rparr>)"
      "length R = MAX_REGISTERED_CARDS"
      "take (length predefinedUsers) R = map loaded predefinedUsers"
      "drop (length predefinedUsers) R = drop (length predefinedUsers) (registeredCards ?s)"
    using loadCardsFromEEPROM_stored [OF n le seeded_holds len] by blast
  have "R = take (length predefinedUsers) R @ drop (length predefinedUsers) R"
    by simp
  also have "\<dots> = predefinedUsers @ [blank_card, blank_card]"
    unfolding R(3,4)
    by (simp add: println_def setup_hardware_cards predefinedUsers_def loaded_def
        MAX_REGISTERED_CARDS_def replicate_pos)
  finally have Req: "R = predefinedUsers @ [blank_card, blank_card]" .
  have lines: "map (\<lambda>j. loaded_line j (predefinedUsers ! j)) [0 ..< length predefinedUsers] =
      [''Loaded Card 1: UID= F3 97 17 2D, Name=BUS DRIVER'',
       ''Loaded Card 2: UID= 19 78 97 3F, Name=HELPER'',
       ''Loaded Card 3: UID= 11 22 33 44, Name=STATION MASTER'']"
    by (simp add: predefinedUsers_def loaded_line_def uid_hex_def print_simps upt_conv_Cons)
  have "loadCardsFromEEPROM (seeded junk e) ?s = Inr factory_state"
    unfolding R(1) Req lines
    by (simp add: seeded_count NUM_PREDEFINED_USERS_def predefinedUsers_def println_def
        setup_hardware_eq initial_state_def factory_state_def print_simps)
  then show ?thesis
    by (simp add: setup_bus_fresh [OF assms])
qed


lemma loaded_cards_factory: "loaded_cards factory_state = predefinedUsers"
  by (simp add: loaded_cards_def factory_state_def predefinedUsers_def)

text \<open>
  Claim C9. When the marker matches and the stored count \<open>n\<close> is at most
  \<^verbatim>\<open>MAX_REGISTERED_CARDS\<close>, \<^verbatim>\<open>setup()\<close> loads the \<open>n\<close> stored cards, with scan counts 0, and
  leaves the EEPROM as it was. When the marker does not match, it seeds the EEPROM with the
  predefined cards, writes the marker, and loads the predefined cards. When the marker matches
  and the stored count exceeds \<^verbatim>\<open>MAX_REGISTERED_CARDS\<close>, the count in memory is 0, no card
  is loaded or found, and the EEPROM is left as it was.
\<close>

theorem registry_load:
  "(EEPROM_get_u16 e EEPROM_ADDR_MAGIC = MAGIC_VALUE \<and>
    unat (e EEPROM_ADDR_NUM_CARDS) = length cs \<and> length cs \<le> MAX_REGISTERED_CARDS \<and>
    store_holds e cs
    \<longrightarrow> (\<exists>s. setup_bus junk e = Inr (e, s) \<and> unat (numLoadedCards s) = length cs \<and>
             loaded_cards s = map loaded cs))
   \<and> (EEPROM_get_u16 e EEPROM_ADDR_MAGIC \<noteq> MAGIC_VALUE
    \<longrightarrow> (\<exists>e' s. setup_bus junk e = Inr (e', s) \<and>
             EEPROM_get_u16 e' EEPROM_ADDR_MAGIC = MAGIC_VALUE \<and>
             e' EEPROM_ADDR_NUM_CARDS = NUM_PREDEFINED_USERS \<and>
             store_holds e' predefinedUsers \<and>
             numLoadedCards s = NUM_PREDEFINED_USERS \<and> loaded_cards s = predefinedUsers))
   \<and> (EEPROM_get_u16 e EEPROM_ADDR_MAGIC = MAGIC_VALUE \<and>
      MAX_REGISTERED_CARDS < unat (e EEPROM_ADDR_NUM_CARDS)
    \<longrightarrow> (\<exists>s. setup_bus junk e = Inr (e, s) \<and> numLoadedCards s = 0 \<and> loaded_cards s = [] \<and>
             (\<forall>u n. findCardIndex s u n = None)))"
proof (intro conjI impI)
  assume a: "EEPROM_get_u16 e EEPROM_ADDR_MAGIC = MAGIC_VALUE \<and>
    unat (e EEPROM_ADDR_NUM_CARDS) = length cs \<and> length cs \<le> MAX_REGISTERED_CARDS \<and>
    store_holds e cs"
  let ?s = "println ''EEPROM already initialized. Loading cards...'' setup_hardware"
  have len: "length (registeredCards ?s) = MAX_REGISTERED_CARDS"
    by (simp add: println_def setup_hardware_cards)
  obtain R where
    R: "loadCardsFromEEPROM e ?s =
          Inr (?s\<lparr>numLoadedCards := e EEPROM_ADDR_NUM_CARDS, registeredCards := R,
                 serial_out := serial_out ?s @ map (\<lambda>j. loaded_line j (cs ! j)) [0 ..< length cs]
                                @ [''Total cards loaded: '' @ dec (length cs)]\<rparr>)"
      "length R = MAX_REGISTERED_CARDS"
      "take (length cs) R = map loaded cs"
    using loadCardsFromEEPROM_stored [of e cs ?s] a len by blast
  show "\<exists>s. setup_bus junk e = Inr (e, s) \<and> unat (numLoadedCards s) = length cs \<and>
             loaded_cards s = map loaded cs"
    using a R by (simp add: setup_bus_initialised loaded_cards_def)
next
  assume "EEPROM_get_u16 e EEPROM_ADDR_MAGIC \<noteq> MAGIC_VALUE"
  then have "setup_bus junk e = Inr (seeded junk e, factory_state)"
    by (rule first_boot)
  moreover have "numLoadedCards factory_state = NUM_PREDEFINED_USERS"
    by (simp add: factory_state_def NUM_PREDEFINED_USERS_def predefinedUsers_def)
  ultimately show "\<exists>e' s. setup_bus junk e = Inr (e', s) \<and>
             EEPROM_get_u16 e' EEPROM_ADDR_MAGIC = MAGIC_VALUE \<and>
             e' EEPROM_ADDR_NUM_CARDS = NUM_PREDEFINED_USERS \<and>
             store_holds e' predefinedUsers \<and>
             numLoadedCards s = NUM_PREDEFINED_USERS \<and> loaded_cards s = predefinedUsers"
    using seeded_magic seeded_count seeded_holds loaded_cards_factory by blast
next
  assume a: "EEPROM_get_u16 e EEPROM_ADDR_MAGIC = MAGIC_VALUE \<and>
      MAX_REGISTERED_CARDS < unat (e EEPROM_ADDR_NUM_CARDS)"
  then show "\<exists>s. setup_bus junk e = Inr (e, s) \<and> numLoadedCards s = 0 \<and> loaded_cards s = [] \<and>
             (\<forall>u n. findCardIndex s u n = None)"
    by (simp add: setup_bus_initialised loadCardsFromEEPROM_def Let_def println_def
        loaded_cards_def findCardIndex_def)
qed

theorem registry_load_witness:
  "(EEPROM_get_u16 (seeded no_junk erased) EEPROM_ADDR_MAGIC = MAGIC_VALUE \<and>
    unat (seeded no_junk erased EEPROM_ADDR_NUM_CARDS) = length predefinedUsers \<and>
    length predefinedUsers \<le> MAX_REGISTERED_CARDS \<and>
    store_holds (seeded no_junk erased) predefinedUsers \<and>
    (\<exists>s. setup_bus no_junk (seeded no_junk erased) = Inr (seeded no_junk erased, s) \<and>
         unat (numLoadedCards s) = length predefinedUsers \<and>
         loaded_cards s = map loaded predefinedUsers))
   \<and> (EEPROM_get_u16 erased EEPROM_ADDR_MAGIC \<noteq> MAGIC_VALUE \<and>
     (\<exists>e' s. setup_bus no_junk erased = Inr (e', s) \<and>
         EEPROM_get_u16 e' EEPROM_ADDR_MAGIC = MAGIC_VALUE \<and>
         e' EEPROM_ADDR_NUM_CARDS = NUM_PREDEFINED_USERS \<and>
         store_holds e' predefinedUsers \<and>
         numLoadedCards s = NUM_PREDEFINED_USERS \<and> loaded_cards s = predefinedUsers))
   \<and> (EEPROM_get_u16 bad_count EEPROM_ADDR_MAGIC = MAGIC_VALUE \<and>
      MAX_REGISTERED_CARDS < unat (bad_count EEPROM_ADDR_NUM_CARDS) \<and>
     (\<exists>s. setup_bus no_junk bad_count = Inr (bad_count, s) \<and> numLoadedCards s = 0 \<and>
          loaded_cards s = [] \<and> (\<forall>u n. findCardIndex s u n = None)))"
proof -
  have h1: "EEPROM_get_u16 (seeded no_junk erased) EEPROM_ADDR_MAGIC = MAGIC_VALUE \<and>
    unat (seeded no_junk erased EEPROM_ADDR_NUM_CARDS) = length predefinedUsers \<and>
    length predefinedUsers \<le> MAX_REGISTERED_CARDS \<and>
    store_holds (seeded no_junk erased) predefinedUsers"
  proof (intro conjI)
    show "unat (seeded no_junk erased EEPROM_ADDR_NUM_CARDS) = length predefinedUsers"
      by (simp add: seeded_count NUM_PREDEFINED_USERS_def predefinedUsers_def)
    show "length predefinedUsers \<le> MAX_REGISTERED_CARDS"
      by (simp add: predefinedUsers_def MAX_REGISTERED_CARDS_def)
  qed (rule seeded_magic seeded_holds)+
  have h2: "EEPROM_get_u16 erased EEPROM_ADDR_MAGIC \<noteq> MAGIC_VALUE"
    by (simp add: EEPROM_get_u16_def erased_def MAGIC_VALUE_def)
  have h3: "EEPROM_get_u16 bad_count EEPROM_ADDR_MAGIC = MAGIC_VALUE \<and>
      MAX_REGISTERED_CARDS < unat (bad_count EEPROM_ADDR_NUM_CARDS)"
    by (simp add: EEPROM_get_u16_def bad_count_def erased_def MAGIC_VALUE_def settings)
  show ?thesis
    using h1 h2 h3
      registry_load [of "seeded no_junk erased" predefinedUsers no_junk]
      registry_load [of erased predefinedUsers no_junk]
      registry_load [of bad_count predefinedUsers no_junk]
    by blast
qed

subsection \<open>Conditions that hold in every reachable state\<close>

lemma updateLCD_eq:
  "updateLCD s =
     s\<lparr>isOverloaded := 5 < passengerCount s,
       buzzer := (if 5 < passengerCount s then (if isOverloaded s then buzzer s else HIGH) else LOW),
       buzzerOnTime := (if 5 < passengerCount s \<and> \<not> isOverloaded s then clock s else buzzerOnTime s),
       overloadCount := (if 5 < passengerCount s \<and> \<not> isOverloaded s then overloadCount s + 1
                         else overloadCount s),
       lcd := (fst (lcd s),
               overwrite (pad16 (if 5 < passengerCount s
                                 then print_int (passengerCount s) @ '' (Overload)''
                                 else ''Count: '' @ print_int (passengerCount s)))
                 (snd (lcd s))),
       serial_out := serial_out s @
          (if 5 < passengerCount s \<and> \<not> isOverloaded s then [''Overload detected, buzzer ON.'']
           else if \<not> 5 < passengerCount s \<and> isOverloaded s
                then [''Passenger count normal. Overload state reset.'']
           else [])\<rparr>"
  by (simp add: updateLCD_def Let_def println_def lcd_print_def)

lemma count_screen_eq:
  "count_screen s =
     s\<lparr>isOverloaded := 5 < passengerCount s,
       buzzer := (if 5 < passengerCount s then (if isOverloaded s then buzzer s else HIGH) else LOW),
       buzzerOnTime := (if 5 < passengerCount s \<and> \<not> isOverloaded s then clock s else buzzerOnTime s),
       overloadCount := (if 5 < passengerCount s \<and> \<not> isOverloaded s then overloadCount s + 1
                         else overloadCount s),
       lcd := (''Passenger Count:'',
               pad16 (if 5 < passengerCount s
                      then print_int (passengerCount s) @ '' (Overload)''
                      else ''Count: '' @ print_int (passengerCount s))),
       serial_out := serial_out s @
          (if 5 < passengerCount s \<and> \<not> isOverloaded s then [''Overload detected, buzzer ON.'']
           else if \<not> 5 < passengerCount s \<and> isOverloaded s
                then [''Passenger count normal. Overload state reset.'']
           else [])\<rparr>"
  by (simp add: count_screen_def updateLCD_eq lcd_clear_def lcd_print_def overwrite_def)

lemmas state_ok_defs = state_ok_def registry_ok_def counter_ok_def

lemma handleEmergencyButton_ok: "state_ok s \<Longrightarrow> state_ok (handleEmergencyButton b s)"
  by (auto simp: state_ok_defs handleEmergencyButton_def Let_def println_def lcd_clear_def lcd_print_def
      count_screen_eq)

lemma handle_bluetooth_ok: "state_ok s \<Longrightarrow> state_ok (handle_bluetooth a s)"
  by (auto simp: state_ok_defs handle_bluetooth_def Let_def println_def delay_def sendAdminData_def
      split: option.splits)

lemma bluetooth_timeout_ok: "state_ok s \<Longrightarrow> state_ok (bluetooth_timeout ir s)"
  by (auto simp: state_ok_defs bluetooth_timeout_def println_def count_screen_eq gate_blocked_message_def
      lcd_clear_def lcd_print_def)

lemma handle_rfid_ok: "state_ok s \<Longrightarrow> state_ok (handle_rfid c s)"
  by (auto simp: state_ok_defs handle_rfid_def Let_def println_def activateServo_def
      split: option.splits)

lemma arm_entry_ok: "state_ok s \<Longrightarrow> state_ok (arm_entry ir s)"
  by (simp add: state_ok_defs arm_entry_def)

lemma count_entry_ok: "state_ok s \<Longrightarrow> state_ok (count_entry ir s)"
  by (auto simp: state_ok_defs count_entry_def Let_def println_def delay_def resetIRStates_def
      updateLCD_eq)

lemma arm_exit_ok: "state_ok s \<Longrightarrow> state_ok (arm_exit ir s)"
  by (simp add: state_ok_defs arm_exit_def)

lemma count_exit_ok: "state_ok s \<Longrightarrow> state_ok (count_exit ir s)"
  by (auto simp: state_ok_defs count_exit_def Let_def println_def delay_def resetIRStates_def
      updateLCD_eq)

lemma sequence_timeout_ok: "state_ok s \<Longrightarrow> state_ok (sequence_timeout s)"
  by (simp add: state_ok_defs sequence_timeout_def resetIRStates_def)

lemma count_passengers_ok: "state_ok s \<Longrightarrow> state_ok (count_passengers ir s)"
  unfolding count_passengers_def
  by (intro sequence_timeout_ok count_exit_ok arm_exit_ok count_entry_ok arm_entry_ok)

lemma buzzer_timeout_ok: "state_ok s \<Longrightarrow> state_ok (buzzer_timeout s)"
  by (auto simp: state_ok_defs buzzer_timeout_def println_def)

lemma checkAndCloseServo_ok: "state_ok s \<Longrightarrow> state_ok (checkAndCloseServo ir s)"
  by (auto simp: state_ok_defs checkAndCloseServo_def println_def count_screen_eq
      gate_blocked_message_def lcd_clear_def lcd_print_def)

lemma normal_evaluation_ok: "state_ok s \<Longrightarrow> state_ok (normal_evaluation i s)"
  unfolding normal_evaluation_def
  by (intro checkAndCloseServo_ok buzzer_timeout_ok count_passengers_ok handle_rfid_ok
      bluetooth_timeout_ok handle_bluetooth_ok)

lemma loop_ok:
  assumes "state_ok s"
  shows "state_ok (loop i s)"
proof -
  let ?s1 = "handleEmergencyButton (button i) (s\<lparr>clock := now i\<rparr>)"
  have "state_ok (s\<lparr>clock := now i\<rparr>)" using assms by (simp add: state_ok_defs)
  then have 1: "state_ok ?s1" by (rule handleEmergencyButton_ok)
  then show ?thesis
    by (simp add: loop_def Let_def normal_evaluation_ok)
qed

lemma run_ok: "state_ok s \<Longrightarrow> state_ok (run is s)"
  by (induction "is" arbitrary: s) (simp_all add: loop_ok)

lemma load_cards_ok: "state_ok s \<Longrightarrow> load_cards e i k s = Inr s' \<Longrightarrow> state_ok s'"
proof (induction k arbitrary: i s)
  case 0
  then show ?case by simp
next
  case (Suc k)
  show ?case
  proof (cases "c_string (ee_name (EEPROM_get_card e (EEPROM_ADDR_CARDS_DATA + i * sizeof_CardForEEPROM)))")
    case None
    then show ?thesis using Suc.prems(2) by (simp add: Let_def)
  next
    case (Some nm)
    let ?r = "EEPROM_get_card e (EEPROM_ADDR_CARDS_DATA + i * sizeof_CardForEEPROM)"
    let ?c = "\<lparr>uid = ee_uid ?r, uidSize = ee_uidSize ?r, name = nm, scanCount = 0\<rparr>"
    let ?s2 = "println (''Loaded Card '' @ print_int (int i + 1) @ '': UID=''
                 @ uid_hex (take (unat (uidSize ?c)) (uid ?c)) @ '', Name='' @ name ?c)
                 (s\<lparr>registeredCards := (registeredCards s)[i := ?c]\<rparr>)"
    have ok: "\<not> UID_MAX_SIZE < unat (ee_uidSize ?r)"
      using Suc.prems(2) Some by (auto simp: Let_def split: if_splits)
    have "load_cards e (Suc i) k ?s2 = Inr s'"
      using Suc.prems(2) Some ok by (simp add: Let_def)
    moreover have "state_ok ?s2"
      using Suc.prems(1) by (simp add: state_ok_defs println_def)
    ultimately show ?thesis by (rule Suc.IH [rotated])
  qed
qed

lemma setup_hardware_ok: "state_ok setup_hardware"
  by (simp add: state_ok_defs setup_hardware_eq initial_state_def MAX_REGISTERED_CARDS_def)

lemma factory_state_ok: "state_ok factory_state"
  by (simp add: state_ok_defs factory_state_def predefinedUsers_def MAX_REGISTERED_CARDS_def)

lemma setup_ok:
  assumes "setup_bus junk e = Inr (e', s)"
  shows "state_ok s"
proof (cases "EEPROM_get_u16 e EEPROM_ADDR_MAGIC = MAGIC_VALUE")
  case False
  then have "s = factory_state"
    using assms by (simp add: first_boot)
  then show ?thesis by (simp add: factory_state_ok)
next
  case True
  let ?s = "println ''EEPROM already initialized. Loading cards...'' setup_hardware"
  have i: "state_ok ?s" using setup_hardware_ok by (simp add: state_ok_defs println_def)
  have l: "loadCardsFromEEPROM e ?s = Inr s"
    using assms True by (simp add: setup_bus_initialised split: sum.splits)
  show ?thesis
  proof (cases "MAX_REGISTERED_CARDS < unat (e EEPROM_ADDR_NUM_CARDS)")
    case True
    then show ?thesis
      using l i by (auto simp: loadCardsFromEEPROM_def Let_def println_def state_ok_defs)
  next
    case False
    let ?s1 = "?s\<lparr>numLoadedCards := e EEPROM_ADDR_NUM_CARDS\<rparr>"
    from False l obtain s2 where
      s2: "load_cards e 0 (unat (e EEPROM_ADDR_NUM_CARDS)) ?s1 = Inr s2"
      and s: "s = println (''Total cards loaded: '' @ dec (unat (numLoadedCards s2))) s2"
      by (auto simp: loadCardsFromEEPROM_def Let_def split: sum.splits)
    have "state_ok ?s1" using i False by (simp add: state_ok_defs)
    then have "state_ok s2" using s2 by (rule load_cards_ok)
    then show ?thesis unfolding s by (simp add: state_ok_defs println_def)
  qed
qed

lemma reachable_ok:
  "setup_bus junk e = Inr (e', s0) \<Longrightarrow> run is s0 = s \<Longrightarrow> state_ok s"
  using run_ok [OF setup_ok] by blast

lemma append_users_eq:
  "i + k \<le> length cards \<Longrightarrow>
   append_users cards i k buffer = buffer @ concat (map snapshot_pair (take k (drop i cards)))"
proof (induction k arbitrary: i buffer)
  case 0
  then show ?case by simp
next
  case (Suc k)
  then have i: "i < length cards" by simp
  have "take (Suc k) (drop i cards) = cards ! i # take k (drop (Suc i) cards)"
    using i by (simp add: Cons_nth_drop_Suc [symmetric])
  then show ?case
    using Suc by (simp add: Let_def snapshot_pair_def)
qed

lemma admin_line_eq:
  "unat (numLoadedCards s) \<le> length (registeredCards s) \<Longrightarrow>
   admin_line s = snapshot_line s (loaded_cards s)"
  by (simp add: admin_line_def snapshot_line_def loaded_cards_def append_users_eq)

text \<open>
  Claim C1, amended. In every state the controller reaches, \<^verbatim>\<open>sendAdminData\<close> writes the line
  \<^verbatim>\<open>D:<occupancy>,<pressCount>,<overloadCount>\<close> followed by one \<^verbatim>\<open>,<name>,<scanCount>\<close>
  pair for every loaded card, in registry order, whether or not the card was used in this
  session, and then the same line once more behind \<^verbatim>\<open>Sent to Admin: \<close>.
\<close>

theorem snapshot_lists_every_loaded_card:
  assumes "setup_bus junk e = Inr (e', s0)" and "run is s0 = s"
  shows "sendAdminData s =
           s\<lparr>serial_out := serial_out s @
               [snapshot_line s (loaded_cards s),
                ''Sent to Admin: '' @ snapshot_line s (loaded_cards s)]\<rparr>"
proof -
  have "state_ok s" using assms by (rule reachable_ok)
  then have "unat (numLoadedCards s) \<le> length (registeredCards s)"
    by (simp add: state_ok_defs)
  then show ?thesis
    by (simp add: sendAdminData_def Let_def println_def admin_line_eq)
qed

theorem snapshot_lists_every_loaded_card_witness:
  "setup_bus no_junk erased = Inr (seeded no_junk erased, factory_state) \<and>
   run [] factory_state = factory_state \<and>
   sendAdminData factory_state =
     factory_state\<lparr>serial_out := serial_out factory_state @
       [snapshot_line factory_state (loaded_cards factory_state),
        ''Sent to Admin: '' @ snapshot_line factory_state (loaded_cards factory_state)]\<rparr>"
proof -
  have b: "setup_bus no_junk erased = Inr (seeded no_junk erased, factory_state)"
    by (rule first_boot) (simp add: EEPROM_get_u16_def erased_def MAGIC_VALUE_def)
  have r: "run [] factory_state = factory_state" by simp
  show ?thesis
    using b r snapshot_lists_every_loaded_card [OF b r] by simp
qed

lemma used_cards_factory: "used_cards factory_state = []"
  by (simp add: used_cards_def loaded_cards_factory predefinedUsers_def)

lemma factory_counters:
  "passengerCount factory_state = 0" "emergencyPressCount factory_state = 0"
  "overloadCount factory_state = 0"
  by (simp_all add: factory_state_def)

text \<open>
  Claim C1 as stated fails: after the first boot no card has been used, and the snapshot still
  lists the three loaded cards with a scan count of 0.
\<close>

theorem snapshot_unused_cards_counterexample:
  "admin_line factory_state = ''D:0,0,0,BUS DRIVER,0,HELPER,0,STATION MASTER,0'' \<and>
   snapshot_line factory_state (used_cards factory_state) = ''D:0,0,0'' \<and>
   admin_line factory_state \<noteq> snapshot_line factory_state (used_cards factory_state)"
proof -
  have "unat (numLoadedCards factory_state) \<le> length (registeredCards factory_state)"
    by (simp add: factory_state_def predefinedUsers_def)
  then have "admin_line factory_state = snapshot_line factory_state predefinedUsers"
    by (simp add: admin_line_eq loaded_cards_factory)
  also have "\<dots> = ''D:0,0,0,BUS DRIVER,0,HELPER,0,STATION MASTER,0''"
    by (simp add: snapshot_line_def snapshot_pair_def factory_counters predefinedUsers_def
        print_simps)
  finally show ?thesis
    by (simp add: used_cards_factory snapshot_line_def factory_counters print_simps)
qed

lemmas loop_defs = loop_def normal_evaluation_def handleEmergencyButton_def handle_bluetooth_def
  bluetooth_timeout_def handle_rfid_def count_passengers_def arm_entry_def count_entry_def
  arm_exit_def count_exit_def sequence_timeout_def buzzer_timeout_def checkAndCloseServo_def
  since_def delay_def resetIRStates_def println_def updateLCD_eq count_screen_eq
  gate_blocked_message_def lcd_clear_def lcd_print_def overwrite_def pad16_def
  settings Let_def

lemma factory_fields:
  "hasRotated factory_state = False" "lastMessageTime factory_state = 0"
  "passengerCount factory_state = 0" "ir1Triggered factory_state = False"
  "ir2Triggered factory_state = False" "lastTriggerTime factory_state = 0"
  "emergencyPressCount factory_state = 0" "lastScannedName factory_state = ''None''"
  "lastScannedCount factory_state = 0" "overloadCount factory_state = 0"
  "numLoadedCards factory_state = 3" "buzzerOnTime factory_state = 0"
  "lastButtonState factory_state = HIGH" "lastEmergencyTime factory_state = 0"
  "emergencyMode factory_state = False" "servoOpen factory_state = False"
  "isOverloaded factory_state = False"
  "registeredCards factory_state = predefinedUsers @ [blank_card, blank_card]"
  "clock factory_state = 0" "servo factory_state = 60" "buzzer factory_state = LOW"
  "tone factory_state = None"
  "lcd factory_state = (''Passenger Count:'', ''Count: 0        '')"
  by (simp_all add: factory_state_def)

lemma erased_fresh: "EEPROM_get_u16 erased EEPROM_ADDR_MAGIC \<noteq> MAGIC_VALUE"
  by (simp add: EEPROM_get_u16_def erased_def MAGIC_VALUE_def)

lemma boot_erased: "setup_bus no_junk erased = Inr (seeded no_junk erased, factory_state)"
  by (rule first_boot) (rule erased_fresh)

lemma run_five_entries:
  "run five_entries factory_state =
     factory_state
       \<lparr>passengerCount := 5, isOverloaded := False, buzzer := LOW, buzzerOnTime := 0,
        overloadCount := 0, lcd := (''Passenger Count:'', ''Count: 5        ''),
        serial_out := serial_out factory_state @
          [''Entry -> Count: 1'', ''Entry -> Count: 2'', ''Entry -> Count: 3'',
           ''Entry -> Count: 4'', ''Entry -> Count: 5''],
        lastTriggerTime := 9150, clock := 10500, lastButtonState := HIGH,
        ir1Triggered := False, ir2Triggered := False\<rparr>"
  by (simp add: five_entries_def entering_def sense_def loop_defs factory_fields print_simps)

text \<open>
  Claim C2, amended. When no sequence is armed and both sensors read fired in the same poll,
  the counting logic ends with no sequence armed and with the occupancy it started from, but
  the event is not discarded: an entry and then an exit are counted, both are written to the
  serial port, the pass spends two debounce delays, and at occupancy 5 the entry raises the
  overload alarm and increments \<^verbatim>\<open>overloadCount\<close> before the exit resets the overload state.
\<close>

theorem both_sensors_entry_then_exit:
  assumes "\<not> ir1Triggered s" and "\<not> ir2Triggered s" and "ir = (LOW, LOW)"
    and "0 \<le> passengerCount s" and "passengerCount s < INT_MAX"
    and "isOverloaded s \<longleftrightarrow> 5 < passengerCount s"
  shows "\<exists>s'. count_passengers ir s = s' \<and>
           \<not> ir1Triggered s' \<and> \<not> ir2Triggered s' \<and>
           passengerCount s' = passengerCount s \<and>
           clock s' = clock s + 100 \<and>
           overloadCount s' = (if passengerCount s = 5 then overloadCount s + 1 else overloadCount s) \<and>
           serial_out s' = serial_out s @
             (if passengerCount s = 5
              then [''Overload detected, buzzer ON.'', ''Entry -> Count: 6'',
                    ''Passenger count normal. Overload state reset.'', ''Exit  -> Count: 5'']
              else [''Entry -> Count: '' @ print_int (passengerCount s + 1),
                    ''Exit  -> Count: '' @ print_int (passengerCount s)])"
  using assms
  by (simp add: count_passengers_def arm_entry_def count_entry_def arm_exit_def count_exit_def
      sequence_timeout_def Let_def println_def delay_def resetIRStates_def updateLCD_eq
      since_def settings print_simps)

theorem both_sensors_entry_then_exit_witness:
  "\<not> ir1Triggered factory_state \<and> \<not> ir2Triggered factory_state \<and>
   0 \<le> passengerCount factory_state \<and> passengerCount factory_state < INT_MAX \<and>
   (isOverloaded factory_state \<longleftrightarrow> 5 < passengerCount factory_state) \<and>
   (\<exists>s'. count_passengers (LOW, LOW) factory_state = s' \<and>
      \<not> ir1Triggered s' \<and> \<not> ir2Triggered s' \<and>
      passengerCount s' = passengerCount factory_state \<and>
      clock s' = clock factory_state + 100 \<and>
      overloadCount s' = overloadCount factory_state \<and>
      serial_out s' = serial_out factory_state @ [''Entry -> Count: 1'', ''Exit  -> Count: 0''])"
proof -
  have h: "\<not> ir1Triggered factory_state" "\<not> ir2Triggered factory_state"
    "0 \<le> passengerCount factory_state" "passengerCount factory_state < INT_MAX"
    "isOverloaded factory_state \<longleftrightarrow> 5 < passengerCount factory_state"
    by (simp_all add: factory_fields INT_MAX_def)
  show ?thesis
    using h both_sensors_entry_then_exit [OF h(1,2) refl h(3,4,5)]
    by (simp add: factory_fields print_simps)
qed

text \<open>
  Claim C2 as stated fails. With five passengers aboard and no sequence armed, a pass in which
  both sensors read fired leaves the occupancy at 5 but logs an entry and an exit and takes
  \<^verbatim>\<open>overloadCount\<close> from 0 to 1.
\<close>

theorem both_sensors_not_discarded_counterexample:
  "run five_entries factory_state = five_aboard \<and>
   \<not> ir1Triggered five_aboard \<and> \<not> ir2Triggered five_aboard \<and>
   passengerCount five_aboard = 5 \<and> overloadCount five_aboard = 0 \<and>
   loop (sense 12000 LOW LOW) five_aboard =
     five_aboard
       \<lparr>clock := 12100, lastTriggerTime := 12050, buzzerOnTime := 12000, overloadCount := 1,
        serial_out := serial_out five_aboard @
          [''Overload detected, buzzer ON.'', ''Entry -> Count: 6'',
           ''Passenger count normal. Overload state reset.'', ''Exit  -> Count: 5'']\<rparr>"
proof -
  have "loop (sense 12000 LOW LOW) five_aboard =
     five_aboard
       \<lparr>clock := 12100, lastTriggerTime := 12050, buzzerOnTime := 12000, overloadCount := 1,
        serial_out := serial_out five_aboard @
          [''Overload detected, buzzer ON.'', ''Entry -> Count: 6'',
           ''Passenger count normal. Overload state reset.'', ''Exit  -> Count: 5'']\<rparr>"
    by (simp add: five_aboard_def sense_def loop_defs factory_fields print_simps)
  moreover have "run five_entries factory_state = five_aboard"
    unfolding five_aboard_def by (rule run_five_entries)
  ultimately show ?thesis
    by (simp add: five_aboard_def)
qed

lemma handleEmergencyButton_counters:
  "state_ok s \<Longrightarrow> overloadCount (handleEmergencyButton b s) = overloadCount s"
  "passengerCount (handleEmergencyButton b s) = passengerCount s"
  by (auto simp: state_ok_defs handleEmergencyButton_def Let_def println_def lcd_clear_def
      lcd_print_def count_screen_eq)

lemma handle_bluetooth_counters:
  "overloadCount (handle_bluetooth a s) = overloadCount s"
  "passengerCount (handle_bluetooth a s) = passengerCount s"
  by (auto simp: handle_bluetooth_def Let_def println_def delay_def sendAdminData_def
      split: option.splits)

lemma bluetooth_timeout_counters:
  "state_ok s \<Longrightarrow> overloadCount (bluetooth_timeout ir s) = overloadCount s"
  "passengerCount (bluetooth_timeout ir s) = passengerCount s"
  by (auto simp: state_ok_defs bluetooth_timeout_def println_def count_screen_eq
      gate_blocked_message_def lcd_clear_def lcd_print_def)

lemma handle_rfid_counters:
  "overloadCount (handle_rfid c s) = overloadCount s"
  "passengerCount (handle_rfid c s) = passengerCount s"
  by (auto simp: handle_rfid_def Let_def println_def activateServo_def split: option.splits)

lemma buzzer_timeout_counters:
  "overloadCount (buzzer_timeout s) = overloadCount s"
  "passengerCount (buzzer_timeout s) = passengerCount s"
  by (auto simp: buzzer_timeout_def println_def)

lemma checkAndCloseServo_counters:
  "state_ok s \<Longrightarrow> overloadCount (checkAndCloseServo ir s) = overloadCount s"
  "passengerCount (checkAndCloseServo ir s) = passengerCount s"
  by (auto simp: state_ok_defs checkAndCloseServo_def println_def count_screen_eq
      gate_blocked_message_def lcd_clear_def lcd_print_def)



lemma arm_frame:
  "overloadCount (arm_entry ir s) = overloadCount s"
  "passengerCount (arm_entry ir s) = passengerCount s"
  "overloadCount (arm_exit ir s) = overloadCount s"
  "overloadCount (sequence_timeout s) = overloadCount s"
  by (simp_all add: arm_entry_def arm_exit_def sequence_timeout_def resetIRStates_def)





lemma loop_counting:
  "\<not> emergencyMode (handleEmergencyButton (button i) (s\<lparr>clock := now i\<rparr>)) \<Longrightarrow>
   loop i s = checkAndCloseServo (ir_close i) (buzzer_timeout
                (count_passengers (ir_count i) (reaches_counting i s)))"
  by (simp add: loop_def Let_def normal_evaluation_def reaches_counting_def)


lemma run_append: "run (xs @ ys) s = run ys (run xs s)"
  by (induction xs arbitrary: s) simp_all

lemma five_aboard_fields:
  "passengerCount five_aboard = 5" "overloadCount five_aboard = 0" "buzzer five_aboard = LOW"
  "isOverloaded five_aboard = False" "ir1Triggered five_aboard = False"
  "ir2Triggered five_aboard = False" "clock five_aboard = 10500"
  by (simp_all add: five_aboard_def)







subsection \<open>The occupancy counter\<close>

lemma pass_arm:
  assumes "quiet s"
  shows "quiet ((loop (sense t LOW HIGH) s)\<lparr>ir1Triggered := False\<rparr>) \<and>
         ir1Triggered (loop (sense t LOW HIGH) s) \<and>
         lastTriggerTime (loop (sense t LOW HIGH) s) = t \<and>
         passengerCount (loop (sense t LOW HIGH) s) = passengerCount s"
  using assms
  by (simp add: quiet_def sense_def loop_defs)

lemma pass_count:
  assumes "quiet (s\<lparr>ir1Triggered := False\<rparr>)" "ir1Triggered s" "unat (t - lastTriggerTime s) < 1000"
  shows "quiet ((loop (sense t HIGH LOW) s)\<lparr>ir2Triggered := False\<rparr>) \<and>
         ir2Triggered (loop (sense t HIGH LOW) s) \<and>
         lastTriggerTime (loop (sense t HIGH LOW) s) = t + 50 \<and>
         passengerCount (loop (sense t HIGH LOW) s) =
           (if passengerCount s = INT_MAX then INT_MIN else passengerCount s + 1)"
  using assms
  by (simp add: quiet_def sense_def loop_defs)

lemma pass_clear:
  assumes "quiet (s\<lparr>ir2Triggered := False\<rparr>)" "ir2Triggered s" "1000 < unat (t - lastTriggerTime s)"
  shows "quiet (loop (sense t HIGH HIGH) s) \<and>
         passengerCount (loop (sense t HIGH HIGH) s) = passengerCount s"
  using assms
  by (simp add: quiet_def sense_def loop_defs)

lemma run_entering:
  assumes "quiet s"
  shows "quiet (run (entering t) s) \<and>
         passengerCount (run (entering t) s) =
           (if passengerCount s = INT_MAX then INT_MIN else passengerCount s + 1)"
proof -
  let ?s1 = "loop (sense t LOW HIGH) s"
  let ?s2 = "loop (sense (t + 100) HIGH LOW) ?s1"
  let ?s3 = "loop (sense (t + 1500) HIGH HIGH) ?s2"
  have r: "run (entering t) s = ?s3" by (simp add: entering_def)
  note 1 = pass_arm [OF assms, of t]
  have "unat (t + 100 - lastTriggerTime ?s1) < 1000" using 1 by simp
  with 1 have 2: "quiet (?s2\<lparr>ir2Triggered := False\<rparr>) \<and> ir2Triggered ?s2 \<and>
      lastTriggerTime ?s2 = t + 100 + 50 \<and>
      passengerCount ?s2 = (if passengerCount ?s1 = INT_MAX then INT_MIN else passengerCount ?s1 + 1)"
    by (intro pass_count) simp_all
  have "1000 < unat (t + 1500 - lastTriggerTime ?s2)" using 2 by simp
  with 2 have "quiet ?s3 \<and> passengerCount ?s3 = passengerCount ?s2"
    by (intro pass_clear) simp_all
  then show ?thesis
    unfolding r using 1 2 by simp
qed

lemma run_crossings:
  assumes "quiet s" and "passengerCount s + int n \<le> INT_MAX"
  shows "quiet (run (crossings n t) s) \<and>
         passengerCount (run (crossings n t) s) = passengerCount s + int n"
  using assms(2)
proof (induction n)
  case 0
  then show ?case using assms(1) by simp
next
  case (Suc n)
  let ?s = "run (crossings n t) s"
  have IH: "quiet ?s" "passengerCount ?s = passengerCount s + int n"
    using Suc by simp_all
  have "passengerCount ?s \<noteq> INT_MAX" using IH(2) Suc.prems by simp
  then show ?case
    using run_entering [OF IH(1), of "t + of_nat (2000 * n)"] IH(2)
    by (simp add: run_append)
qed

lemma quiet_factory: "quiet factory_state"
  by (simp add: quiet_def factory_fields)

lemma run_full:
  "passengerCount (run (crossings 32767 1000) factory_state) = 32767"
  "passengerCount (run (crossings 32768 1000) factory_state) = - 32768"
proof -
  let ?s = "run (crossings 32767 1000) factory_state"
  have 1: "quiet ?s \<and> passengerCount ?s = passengerCount factory_state + int 32767"
    by (rule run_crossings) (simp_all add: quiet_factory factory_fields INT_MAX_def)
  then show a: "passengerCount ?s = 32767" by (simp add: factory_fields)
  have c: "crossings 32768 1000 = crossings 32767 1000 @ entering (1000 + of_nat (2000 * 32767))"
    using crossings.simps(2) [of 32767 1000] by simp
  show "passengerCount (run (crossings 32768 1000) factory_state) = - 32768"
    unfolding c run_append
    using run_entering [of ?s "1000 + of_nat (2000 * 32767)"] 1 a
    by (simp add: INT_MAX_def INT_MIN_def)
qed

lemma count_passengers_exit:
  assumes "ir2Triggered s" and "\<not> ir1Triggered s" and "fst ir = LOW"
    and "since s (lastTriggerTime s) < SEQ_TIMEOUT_MS"
  shows "passengerCount (count_passengers ir s) =
          (if 0 < passengerCount s then passengerCount s - 1 else passengerCount s)"
  using assms
  by (simp add: count_passengers_def arm_entry_def count_entry_def arm_exit_def count_exit_def
      sequence_timeout_def Let_def println_def delay_def resetIRStates_def updateLCD_eq)

lemma count_entry_passengerCount:
  "passengerCount (count_entry ir s) =
     (if entry_condition ir s
      then (if passengerCount s = INT_MAX then INT_MIN else passengerCount s + 1)
      else passengerCount s)"
  by (simp add: count_entry_def entry_condition_def Let_def println_def delay_def
      resetIRStates_def updateLCD_eq)

lemma count_exit_not_negative:
  "0 \<le> passengerCount s \<Longrightarrow> 0 \<le> passengerCount (count_exit ir s)"
  by (simp add: count_exit_def Let_def println_def delay_def resetIRStates_def updateLCD_eq)

lemma passengerCount_frames:
  "passengerCount (arm_exit ir s) = passengerCount s"
  "passengerCount (sequence_timeout s) = passengerCount s"
  by (simp_all add: arm_exit_def sequence_timeout_def resetIRStates_def)

lemma reaches_counting_passengerCount:
  "passengerCount (reaches_counting i s) = passengerCount s"
  unfolding reaches_counting_def
  by (simp add: handle_rfid_counters bluetooth_timeout_counters handle_bluetooth_counters
      handleEmergencyButton_counters)

lemma loop_not_negative:
  assumes "0 \<le> passengerCount s" and "\<not> (passengerCount s = INT_MAX \<and> entry_counted i s)"
  shows "0 \<le> passengerCount (loop i s)"
proof -
  let ?s1 = "handleEmergencyButton (button i) (s\<lparr>clock := now i\<rparr>)"
  show ?thesis
  proof (cases "emergencyMode ?s1")
    case True
    then have "loop i s = ?s1" by (simp add: loop_def Let_def)
    then show ?thesis
      using assms(1) by (simp add: handleEmergencyButton_counters)
  next
    case False
    let ?s2 = "arm_entry (ir_count i) (reaches_counting i s)"
    let ?s3 = "count_entry (ir_count i) ?s2"
    have p2: "passengerCount ?s2 = passengerCount s"
      by (simp add: arm_frame reaches_counting_passengerCount)
    have "entry_counted i s \<longleftrightarrow> entry_condition (ir_count i) ?s2"
      using False by (simp add: entry_counted_def entry_condition_def Let_def)
    then have "0 \<le> passengerCount ?s3"
      using assms p2 by (auto simp: count_entry_passengerCount)
    then have "0 \<le> passengerCount (count_passengers (ir_count i) (reaches_counting i s))"
      unfolding count_passengers_def
      by (simp add: passengerCount_frames count_exit_not_negative)
    then show ?thesis
      by (simp add: loop_counting [OF False] checkAndCloseServo_counters buzzer_timeout_counters)
  qed
qed

lemma run_not_negative:
  "0 \<le> passengerCount s \<Longrightarrow> entries_fit is s \<Longrightarrow> 0 \<le> passengerCount (run is s)"
proof (induction "is" arbitrary: s)
  case Nil
  then show ?case by simp
next
  case (Cons i "is")
  have "0 \<le> passengerCount (loop i s)"
    using Cons.prems by (intro loop_not_negative) simp_all
  then show ?case
    using Cons.prems(2) Cons.IH [of "loop i s"] by simp
qed

lemma load_cards_passengerCount:
  "load_cards e i k s = Inr s' \<Longrightarrow> passengerCount s' = passengerCount s"
proof (induction k arbitrary: i s)
  case 0
  then show ?case by simp
next
  case (Suc k)
  from Suc.prems obtain s2 where "load_cards e (Suc i) k s2 = Inr s'"
    and "passengerCount s2 = passengerCount s"
    by (auto simp: Let_def println_def split: option.splits if_splits)
  then show ?case using Suc.IH by fastforce
qed

lemma setup_passengerCount:
  assumes "setup_bus junk e = Inr (e', s)"
  shows "passengerCount s = 0"
proof (cases "EEPROM_get_u16 e EEPROM_ADDR_MAGIC = MAGIC_VALUE")
  case False
  then have "s = factory_state"
    using assms by (simp add: first_boot)
  then show ?thesis by (simp add: factory_fields)
next
  case True
  let ?s = "println ''EEPROM already initialized. Loading cards...'' setup_hardware"
  have i: "passengerCount ?s = 0"
    by (simp add: setup_hardware_eq println_def initial_state_def)
  have l: "loadCardsFromEEPROM e ?s = Inr s"
    using assms True by (simp add: setup_bus_initialised split: sum.splits)
  show ?thesis
  proof (cases "MAX_REGISTERED_CARDS < unat (e EEPROM_ADDR_NUM_CARDS)")
    case True
    then show ?thesis
      using l i by (auto simp: loadCardsFromEEPROM_def Let_def println_def)
  next
    case False
    let ?s1 = "?s\<lparr>numLoadedCards := e EEPROM_ADDR_NUM_CARDS\<rparr>"
    from False l obtain s2 where
      s2: "load_cards e 0 (unat (e EEPROM_ADDR_NUM_CARDS)) ?s1 = Inr s2"
      and s: "s = println (''Total cards loaded: '' @ dec (unat (numLoadedCards s2))) s2"
      by (auto simp: loadCardsFromEEPROM_def Let_def split: sum.splits)
    have "passengerCount s2 = passengerCount ?s1" using s2 by (rule load_cards_passengerCount)
    then show ?thesis unfolding s using i by (simp add: println_def)
  qed
qed

lemma run_leaving:
  "run (leaving 1000) factory_state =
     factory_state
       \<lparr>serial_out := serial_out factory_state @ [''Exit  -> Count: 0''],
        lastTriggerTime := 1000, clock := 2500\<rparr>"
  by (simp add: leaving_def sense_def loop_defs factory_fields print_simps)

lemma entries_fit_examples:
  "entries_fit five_entries factory_state" "entries_fit (leaving 1000) factory_state"
  by (simp_all add: five_entries_def entering_def leaving_def sense_def loop_defs factory_fields
      print_simps)

text \<open>
  Claim C5, amended. When an exit sequence is armed and sensor 1 fires within the window, the
  counting logic sets the occupancy \<open>o \<ge> 0\<close> to \<open>max (o - 1) 0\<close>; and the occupancy is not
  negative in any state the controller reaches after a boot through passes none of which
  counts an entry at occupancy 32767, the largest value of the 16-bit counter.
\<close>

theorem occupancy_not_negative_below_int_max:
  "(0 \<le> passengerCount s \<and> ir2Triggered s \<and> \<not> ir1Triggered s \<and> fst ir = LOW \<and>
    since s (lastTriggerTime s) < SEQ_TIMEOUT_MS
    \<longrightarrow> passengerCount (count_passengers ir s) = max (passengerCount s - 1) 0)
   \<and> (setup_bus junk e = Inr (e', s0) \<and> entries_fit is s0 \<longrightarrow> 0 \<le> passengerCount (run is s0))"
proof (intro conjI impI)
  assume a: "0 \<le> passengerCount s \<and> ir2Triggered s \<and> \<not> ir1Triggered s \<and> fst ir = LOW \<and>
    since s (lastTriggerTime s) < SEQ_TIMEOUT_MS"
  then have "passengerCount (count_passengers ir s) =
      (if 0 < passengerCount s then passengerCount s - 1 else passengerCount s)"
    by (intro count_passengers_exit) simp_all
  then show "passengerCount (count_passengers ir s) = max (passengerCount s - 1) 0"
    using a by (auto simp: max_def)
next
  assume a: "setup_bus junk e = Inr (e', s0) \<and> entries_fit is s0"
  then have "passengerCount s0 = 0" by (blast intro: setup_passengerCount)
  then show "0 \<le> passengerCount (run is s0)"
    using a by (intro run_not_negative) simp_all
qed

theorem occupancy_not_negative_below_int_max_witness:
  "(0 \<le> passengerCount (exit_armed factory_state) \<and> ir2Triggered (exit_armed factory_state) \<and>
    \<not> ir1Triggered (exit_armed factory_state) \<and>
    since (exit_armed factory_state) (lastTriggerTime (exit_armed factory_state)) < SEQ_TIMEOUT_MS \<and>
    passengerCount (exit_armed factory_state) = 0 \<and>
    passengerCount (count_passengers (LOW, HIGH) (exit_armed factory_state)) = 0)
   \<and> (0 \<le> passengerCount (exit_armed five_aboard) \<and> ir2Triggered (exit_armed five_aboard) \<and>
    \<not> ir1Triggered (exit_armed five_aboard) \<and>
    since (exit_armed five_aboard) (lastTriggerTime (exit_armed five_aboard)) < SEQ_TIMEOUT_MS \<and>
    passengerCount (exit_armed five_aboard) = 5 \<and>
    passengerCount (count_passengers (LOW, HIGH) (exit_armed five_aboard)) = 4)
   \<and> (setup_bus no_junk erased = Inr (seeded no_junk erased, factory_state) \<and>
      entries_fit (leaving 1000) factory_state \<and>
      0 \<le> passengerCount (run (leaving 1000) factory_state) \<and>
      passengerCount (run (leaving 1000) factory_state) = 0 \<and>
      entries_fit five_entries factory_state \<and>
      0 \<le> passengerCount (run five_entries factory_state))"
proof -
  have h0: "0 \<le> passengerCount (exit_armed factory_state) \<and> ir2Triggered (exit_armed factory_state) \<and>
    \<not> ir1Triggered (exit_armed factory_state) \<and> fst (LOW, HIGH) = LOW \<and>
    since (exit_armed factory_state) (lastTriggerTime (exit_armed factory_state)) < SEQ_TIMEOUT_MS"
    and p0: "passengerCount (exit_armed factory_state) = 0"
    by (simp_all add: exit_armed_def factory_fields since_def settings)
  have h5: "0 \<le> passengerCount (exit_armed five_aboard) \<and> ir2Triggered (exit_armed five_aboard) \<and>
    \<not> ir1Triggered (exit_armed five_aboard) \<and> fst (LOW, HIGH) = LOW \<and>
    since (exit_armed five_aboard) (lastTriggerTime (exit_armed five_aboard)) < SEQ_TIMEOUT_MS"
    and p5: "passengerCount (exit_armed five_aboard) = 5"
    by (simp_all add: exit_armed_def five_aboard_fields since_def settings)
  have "passengerCount (count_passengers (LOW, HIGH) (exit_armed factory_state))
          = max (passengerCount (exit_armed factory_state) - 1) 0"
    using h0 occupancy_not_negative_below_int_max [of "exit_armed factory_state" "(LOW, HIGH)"]
    by blast
  then have 1: "passengerCount (count_passengers (LOW, HIGH) (exit_armed factory_state)) = 0"
    unfolding p0 by simp
  have "passengerCount (count_passengers (LOW, HIGH) (exit_armed five_aboard))
          = max (passengerCount (exit_armed five_aboard) - 1) 0"
    using h5 occupancy_not_negative_below_int_max [of "exit_armed five_aboard" "(LOW, HIGH)"]
    by blast
  then have 2: "passengerCount (count_passengers (LOW, HIGH) (exit_armed five_aboard)) = 4"
    unfolding p5 by simp
  have 3: "0 \<le> passengerCount (run (leaving 1000) factory_state)"
    using boot_erased entries_fit_examples(2)
      occupancy_not_negative_below_int_max [of factory_state "(LOW, HIGH)" no_junk erased
        "seeded no_junk erased" factory_state "leaving 1000"]
    by blast
  have 4: "0 \<le> passengerCount (run five_entries factory_state)"
    using boot_erased entries_fit_examples(1)
      occupancy_not_negative_below_int_max [of factory_state "(LOW, HIGH)" no_junk erased
        "seeded no_junk erased" factory_state five_entries]
    by blast
  have 5: "passengerCount (run (leaving 1000) factory_state) = 0"
    by (simp add: run_leaving factory_fields)
  show ?thesis
    using h0 p0 1 h5 p5 2 3 4 5 boot_erased entries_fit_examples by simp
qed

text \<open>
  Claim C5 as stated fails: the counter is a 16-bit \<^verbatim>\<open>int\<close> and no entry is refused. After
  the first boot, 32767 passengers entering take the occupancy to 32767, and the entry of one
  more takes it to -32768.
\<close>

theorem occupancy_wraps_negative_counterexample:
  "setup_bus no_junk erased = Inr (seeded no_junk erased, factory_state) \<and>
   passengerCount (run (crossings 32767 1000) factory_state) = 32767 \<and>
   passengerCount (run (crossings 32768 1000) factory_state) = - 32768 \<and>
   \<not> 0 \<le> passengerCount (run (crossings 32768 1000) factory_state)"
  using boot_erased run_full by simp

subsection \<open>Emergency mode, the gate and the station link\<close>

lemma handleEmergencyButton_press:
  assumes "b = LOW" and "lastButtonState s = HIGH"
  shows "handleEmergencyButton b s =
     s\<lparr>emergencyMode := True, lastEmergencyTime := clock s,
       emergencyPressCount := emergencyPressCount s + 1, tone := Some (1000, 200),
       serial_out := serial_out s @ [''Emergency button pressed! Buzzer and LCD activated.''],
       lcd := (''EMERGENCY!!!'', ''Alert! Button!''), lastButtonState := LOW\<rparr>"
  using assms
  by (simp add: handleEmergencyButton_def Let_def println_def lcd_clear_def lcd_print_def
      overwrite_def since_def EMERGENCY_TIMEOUT_MS_def)

lemma handleEmergencyButton_waiting:
  assumes "emergencyMode s" and "\<not> (b = LOW \<and> lastButtonState s = HIGH)"
    and "since s (lastEmergencyTime s) \<le> EMERGENCY_TIMEOUT_MS"
  shows "handleEmergencyButton b s = s\<lparr>lastButtonState := b\<rparr>"
  using assms by (auto simp: handleEmergencyButton_def Let_def)

lemma handleEmergencyButton_timed_out:
  assumes "emergencyMode s" and "\<not> (b = LOW \<and> lastButtonState s = HIGH)"
    and "EMERGENCY_TIMEOUT_MS < since s (lastEmergencyTime s)"
  shows "handleEmergencyButton b s =
     (println ''Emergency alert timed out.''
        (count_screen (s\<lparr>emergencyMode := False, tone := None\<rparr>)))\<lparr>lastButtonState := b\<rparr>"
  using assms by (auto simp: handleEmergencyButton_def Let_def)

lemma emergencyMode_frames:
  "emergencyMode (handle_bluetooth a s) = emergencyMode s"
  "emergencyMode (bluetooth_timeout ir s) = emergencyMode s"
  "emergencyMode (handle_rfid c s) = emergencyMode s"
  "emergencyMode (buzzer_timeout s) = emergencyMode s"
  "emergencyMode (checkAndCloseServo ir s) = emergencyMode s"
  "emergencyMode (arm_entry ir s) = emergencyMode s"
  "emergencyMode (arm_exit ir s) = emergencyMode s"
  "emergencyMode (count_exit ir s) = emergencyMode s"
  "emergencyMode (sequence_timeout s) = emergencyMode s"
  by (auto simp: handle_bluetooth_def bluetooth_timeout_def handle_rfid_def buzzer_timeout_def
      checkAndCloseServo_def arm_entry_def arm_exit_def count_exit_def sequence_timeout_def
      Let_def println_def delay_def sendAdminData_def count_screen_eq gate_blocked_message_def
      lcd_clear_def lcd_print_def activateServo_def resetIRStates_def updateLCD_eq
      split: option.splits)

lemma count_entry_emergencyMode: "emergencyMode (count_entry ir s) = emergencyMode s"
  by (simp add: count_entry_def Let_def println_def delay_def resetIRStates_def updateLCD_eq)

lemma normal_evaluation_emergencyMode:
  "emergencyMode (normal_evaluation i s) = emergencyMode s"
  by (simp add: normal_evaluation_def count_passengers_def emergencyMode_frames
      count_entry_emergencyMode)

text \<open>
  Claim C7. A pass that sees the button pressed increments \<^verbatim>\<open>emergencyPressCount\<close>, requests
  the confirmation tone, sets the emergency mode with the time of the pass, and evaluates
  nothing else. While the emergency mode is on and no new press is seen, a pass at most
  \<^verbatim>\<open>EMERGENCY_TIMEOUT_MS\<close> after the press changes nothing but the clock and the sampled
  button state; the first pass later than that ends the emergency mode and goes on with the
  normal evaluation in the same pass, which leaves the emergency mode off.
\<close>

theorem emergency_suspends_for_window:
  "(pressed i s
    \<longrightarrow> loop i s =
          s\<lparr>clock := now i, emergencyMode := True, lastEmergencyTime := now i,
            emergencyPressCount := emergencyPressCount s + 1, tone := Some (1000, 200),
            serial_out := serial_out s @
              [''Emergency button pressed! Buzzer and LCD activated.''],
            lcd := (''EMERGENCY!!!'', ''Alert! Button!''), lastButtonState := LOW\<rparr>)
   \<and> (emergencyMode s \<and> \<not> pressed i s \<and>
      unat (now i - lastEmergencyTime s) \<le> EMERGENCY_TIMEOUT_MS
    \<longrightarrow> loop i s = s\<lparr>clock := now i, lastButtonState := button i\<rparr>)
   \<and> (emergencyMode s \<and> \<not> pressed i s \<and>
      EMERGENCY_TIMEOUT_MS < unat (now i - lastEmergencyTime s)
    \<longrightarrow> loop i s = normal_evaluation i (resumed i s) \<and> \<not> emergencyMode (resumed i s) \<and>
          \<not> emergencyMode (loop i s))"
proof -
  have 1: "loop i s =
          s\<lparr>clock := now i, emergencyMode := True, lastEmergencyTime := now i,
            emergencyPressCount := emergencyPressCount s + 1, tone := Some (1000, 200),
            serial_out := serial_out s @
              [''Emergency button pressed! Buzzer and LCD activated.''],
            lcd := (''EMERGENCY!!!'', ''Alert! Button!''), lastButtonState := LOW\<rparr>"
    if "pressed i s"
  proof -
    from that have "button i = LOW" "lastButtonState (s\<lparr>clock := now i\<rparr>) = HIGH"
      by (simp_all add: pressed_def)
    then show ?thesis
      by (simp add: loop_def Let_def handleEmergencyButton_press)
  qed
  have 2: "loop i s = s\<lparr>clock := now i, lastButtonState := button i\<rparr>"
    if a: "emergencyMode s \<and> \<not> pressed i s \<and>
      unat (now i - lastEmergencyTime s) \<le> EMERGENCY_TIMEOUT_MS"
  proof -
    from a have "handleEmergencyButton (button i) (s\<lparr>clock := now i\<rparr>)
               = s\<lparr>clock := now i, lastButtonState := button i\<rparr>"
      by (intro handleEmergencyButton_waiting [THEN trans]) (auto simp: pressed_def since_def)
    then show ?thesis
      using a by (simp add: loop_def Let_def)
  qed
  have 3: "loop i s = normal_evaluation i (resumed i s) \<and> \<not> emergencyMode (resumed i s) \<and>
          \<not> emergencyMode (loop i s)"
    if a: "emergencyMode s \<and> \<not> pressed i s \<and>
      EMERGENCY_TIMEOUT_MS < unat (now i - lastEmergencyTime s)"
  proof -
    from a have h: "handleEmergencyButton (button i) (s\<lparr>clock := now i\<rparr>) = resumed i s"
      unfolding resumed_def
      by (intro handleEmergencyButton_timed_out [THEN trans]) (auto simp: pressed_def since_def)
    have off: "\<not> emergencyMode (resumed i s)"
      by (simp add: resumed_def println_def count_screen_eq)
    have l: "loop i s = normal_evaluation i (resumed i s)"
      using off by (simp add: loop_def Let_def h)
    moreover have "\<not> emergencyMode (loop i s)"
      unfolding l using off by (simp add: normal_evaluation_emergencyMode)
    ultimately show ?thesis
      using off by blast
  qed
  show ?thesis
    using 1 2 3 by blast
qed

theorem emergency_suspends_for_window_witness:
  "(pressed (press 1000) factory_state \<and> loop (press 1000) factory_state = alarmed)
   \<and> (emergencyMode alarmed \<and> \<not> pressed (sense 6000 HIGH HIGH) alarmed \<and>
      unat (now (sense 6000 HIGH HIGH) - lastEmergencyTime alarmed) \<le> EMERGENCY_TIMEOUT_MS \<and>
      loop (sense 6000 HIGH HIGH) alarmed = alarmed\<lparr>clock := 6000, lastButtonState := HIGH\<rparr>)
   \<and> (emergencyMode alarmed \<and> \<not> pressed (sense 6001 HIGH HIGH) alarmed \<and>
      EMERGENCY_TIMEOUT_MS < unat (now (sense 6001 HIGH HIGH) - lastEmergencyTime alarmed) \<and>
      loop (sense 6001 HIGH HIGH) alarmed
        = normal_evaluation (sense 6001 HIGH HIGH) (resumed (sense 6001 HIGH HIGH) alarmed) \<and>
      \<not> emergencyMode (resumed (sense 6001 HIGH HIGH) alarmed) \<and>
      \<not> emergencyMode (loop (sense 6001 HIGH HIGH) alarmed))"
proof -
  have p: "pressed (press 1000) factory_state"
    by (simp add: pressed_def press_def factory_fields)
  have w: "emergencyMode alarmed \<and> \<not> pressed (sense 6000 HIGH HIGH) alarmed \<and>
      unat (now (sense 6000 HIGH HIGH) - lastEmergencyTime alarmed) \<le> EMERGENCY_TIMEOUT_MS"
    by (simp add: alarmed_def pressed_def sense_def EMERGENCY_TIMEOUT_MS_def)
  have t: "emergencyMode alarmed \<and> \<not> pressed (sense 6001 HIGH HIGH) alarmed \<and>
      EMERGENCY_TIMEOUT_MS < unat (now (sense 6001 HIGH HIGH) - lastEmergencyTime alarmed)"
    by (simp add: alarmed_def pressed_def sense_def EMERGENCY_TIMEOUT_MS_def)
  have "loop (press 1000) factory_state = alarmed"
    using p emergency_suspends_for_window [of "press 1000" factory_state]
    by (simp add: alarmed_def press_def factory_fields)
  moreover have "loop (sense 6000 HIGH HIGH) alarmed = alarmed\<lparr>clock := 6000, lastButtonState := HIGH\<rparr>"
    using w emergency_suspends_for_window [of "sense 6000 HIGH HIGH" alarmed]
    by (simp add: sense_def)
  ultimately show ?thesis
    using p w t emergency_suspends_for_window [of "sense 6001 HIGH HIGH" alarmed]
    by blast
qed

lemma unat_plus_minus_le:
  fixes c t :: u32
  shows "unat (c + of_nat d - t) \<le> unat (c - t) + d"
proof -
  have e: "c + of_nat d - t = (c - t) + of_nat d" by simp
  have "unat (c + of_nat d - t) \<le> unat (c - t) + unat (of_nat d :: u32)"
    unfolding e by (simp add: unat_word_ariths)
  also have "\<dots> \<le> unat (c - t) + d"
    by (simp add: unat_of_nat)
  finally show ?thesis .
qed

lemma gate_fields_frames:
  "gate_fields (arm_entry ir s) = gate_fields s"
  "gate_fields (arm_exit ir s) = gate_fields s"
  "gate_fields (count_exit ir s) = gate_fields s"
  "gate_fields (sequence_timeout s) = gate_fields s"
  "gate_fields (buzzer_timeout s) = gate_fields s"
  "gate_fields (s\<lparr>clock := t\<rparr>) = gate_fields s"
  "gate_fields (handleEmergencyButton b s) = gate_fields s"
  by (auto simp: gate_fields_def arm_entry_def arm_exit_def count_exit_def sequence_timeout_def
      buzzer_timeout_def handleEmergencyButton_def Let_def println_def delay_def
      resetIRStates_def updateLCD_eq count_screen_eq lcd_clear_def lcd_print_def)

lemma clock_frames:
  "clock (arm_entry ir s) = clock s"
  "clock (arm_exit ir s) = clock s"
  "clock (sequence_timeout s) = clock s"
  "clock (buzzer_timeout s) = clock s"
  "clock (handleEmergencyButton b s) = clock s"
  by (auto simp: arm_entry_def arm_exit_def sequence_timeout_def buzzer_timeout_def
      handleEmergencyButton_def Let_def println_def resetIRStates_def count_screen_eq
      lcd_clear_def lcd_print_def)

lemma count_entry_gate:
  shows "gate_fields (count_entry ir s) = gate_fields s"
    and "since (count_entry ir s) t \<le> since s t + IR_DEBOUNCE_MS"
  using unat_plus_minus_le [of "clock s" IR_DEBOUNCE_MS t]
  by (auto simp: gate_fields_def count_entry_def Let_def println_def delay_def resetIRStates_def
      updateLCD_eq since_def)

lemma count_exit_since: "since (count_exit ir s) t \<le> since s t + IR_DEBOUNCE_MS"
  using unat_plus_minus_le [of "clock s" IR_DEBOUNCE_MS t]
  by (auto simp: count_exit_def Let_def println_def delay_def resetIRStates_def updateLCD_eq
      since_def)

lemma since_clock: "clock s' = clock s \<Longrightarrow> since s' t = since s t"
  by (simp add: since_def)

lemma count_passengers_gate:
  shows "gate_fields (count_passengers ir s) = gate_fields s"
    and "since (count_passengers ir s) t \<le> since s t + 2 * IR_DEBOUNCE_MS"
proof -
  let ?s1 = "count_entry ir (arm_entry ir s)"
  have s': "count_passengers ir s = sequence_timeout (count_exit ir (arm_exit ir ?s1))"
    by (simp add: count_passengers_def)
  show "gate_fields (count_passengers ir s) = gate_fields s"
    unfolding s' by (simp add: gate_fields_frames count_entry_gate(1))
  have "since (count_passengers ir s) t = since (count_exit ir (arm_exit ir ?s1)) t"
    unfolding s' by (rule since_clock) (simp add: clock_frames)
  also have "\<dots> \<le> since (arm_exit ir ?s1) t + IR_DEBOUNCE_MS"
    by (rule count_exit_since)
  also have "since (arm_exit ir ?s1) t = since ?s1 t"
    by (rule since_clock) (simp add: clock_frames)
  also have "since ?s1 t \<le> since (arm_entry ir s) t + IR_DEBOUNCE_MS"
    by (rule count_entry_gate(2))
  also have "since (arm_entry ir s) t = since s t"
    by (rule since_clock) (simp add: clock_frames)
  finally show "since (count_passengers ir s) t \<le> since s t + 2 * IR_DEBOUNCE_MS" by simp
qed

lemma loop_keeps_gate_open:
  assumes open_: "hasRotated s" "servo s = 120"
    and line: "line_in_last_10s i s"
  shows "hasRotated (loop i s) \<and> servo (loop i s) = 120"
proof -
  let ?s1 = "handleEmergencyButton (button i) (s\<lparr>clock := now i\<rparr>)"
  have g1: "gate_fields ?s1 = gate_fields s" by (simp add: gate_fields_frames)
  have c1: "clock ?s1 = now i" by (simp add: clock_frames)
  show ?thesis
  proof (cases "emergencyMode ?s1")
    case True
    then have "loop i s = ?s1" by (simp add: loop_def Let_def)
    then show ?thesis using g1 open_ by (simp add: gate_fields_def)
  next
    case False
    let ?s2 = "handle_bluetooth (serial_in i) ?s1"
    have h1: "hasRotated ?s1" "servo ?s1 = 120" "lastMessageTime ?s1 = lastMessageTime s"
      using g1 open_ by (simp_all add: gate_fields_def)
    have s2: "hasRotated ?s2 \<and> servo ?s2 = 120 \<and> servoOpen ?s2 = servoOpen s \<and>
              clock ?s2 = now i \<and> since ?s2 (lastMessageTime ?s2) \<le> TIMEOUT_MS"
      using h1 c1 g1 line
      by (auto simp: handle_bluetooth_def line_in_last_10s_def Let_def println_def since_def
          gate_fields_def split: option.splits)
    let ?s4 = "handle_rfid (card i) (bluetooth_timeout (ir_timeout i) ?s2)"
    have s4: "?s4 = ?s2"
      using s2 by (simp add: bluetooth_timeout_def handle_rfid_def)
    let ?s5 = "count_passengers (ir_count i) ?s2"
    have s': "loop i s = checkAndCloseServo (ir_close i) (buzzer_timeout ?s5)"
      using False by (simp add: loop_def Let_def normal_evaluation_def s4)
    let ?s6 = "buzzer_timeout ?s5"
    have g6: "gate_fields ?s6 = gate_fields ?s2"
      by (simp add: gate_fields_frames count_passengers_gate(1))
    have "since ?s6 (lastMessageTime ?s2) = since ?s5 (lastMessageTime ?s2)"
      by (rule since_clock) (simp add: clock_frames)
    also have "\<dots> \<le> since ?s2 (lastMessageTime ?s2) + 2 * IR_DEBOUNCE_MS"
      by (rule count_passengers_gate(2))
    finally have t6: "since ?s6 (lastMessageTime ?s6) \<le> TIMEOUT_MS + 2 * IR_DEBOUNCE_MS"
      using s2 g6 by (simp add: gate_fields_def)
    have "loop i s = ?s6"
      unfolding s' using t6 by (simp add: checkAndCloseServo_def settings)
    then show ?thesis
      using g6 s2 by (simp add: gate_fields_def)
  qed
qed

lemma run_keeps_gate_open:
  "hasRotated s \<Longrightarrow> servo s = 120 \<Longrightarrow> lines_keep_arriving is s \<Longrightarrow>
   hasRotated (run is s) \<and> servo (run is s) = 120"
proof (induction "is" arbitrary: s)
  case Nil
  then show ?case by simp
next
  case (Cons i "is")
  have "hasRotated (loop i s) \<and> servo (loop i s) = 120"
    using Cons.prems by (intro loop_keeps_gate_open) simp_all
  moreover have "lines_keep_arriving is (loop i s)"
    using Cons.prems(3) by simp
  ultimately show ?case
    using Cons.IH [of "loop i s"] by simp
qed

lemma append_users_step:
  "0 < k \<Longrightarrow> append_users cards i k buffer =
     append_users cards (i + 1) (k - 1)
       (buffer @ '','' @ name (cards ! i) @ '','' @ print_uint (scanCount (cards ! i)))"
  by (cases k) (simp_all add: Let_def)

lemmas rfid_defs = findCardIndex_def uid_match_def activateServo_def uid_hex_def driver_card_def
  predefinedUsers_def blank_card_def upt_conv_Cons sendAdminData_def admin_line_def
  append_users_step

lemma run_scan: "run [scan 1000 driver_card] factory_state = card_open"
  by (simp add: card_open_def scan_def loop_defs rfid_defs factory_fields print_simps)

lemma run_heartbeat: "run [heartbeat 1000] factory_state = remote_open"
  by (simp add: remote_open_def heartbeat_def line_def loop_defs rfid_defs factory_fields
      print_simps)

lemma card_open_fields:
  "servo card_open = 120" "servoOpen card_open" "\<not> hasRotated card_open"
  "\<not> emergencyMode card_open" "scanCount (registeredCards card_open ! 0) = 1"
  "lastMessageTime card_open = 1000"
  by (simp_all add: card_open_def factory_fields)

lemma remote_open_fields:
  "servo remote_open = 120" "hasRotated remote_open" "\<not> servoOpen remote_open"
  "lastMessageTime remote_open = 1000" "clock remote_open = 7000"
  by (simp_all add: remote_open_def factory_fields)

text \<open>
  Claim C3 fails on the code. After the driver's card has opened the gate, a second scan of
  the card, with the gate open and no emergency, is authenticated again: its scan count goes
  from 1 to 2, access is granted and the close timeout is re-armed.
\<close>

theorem scan_while_gate_open_by_card:
  "run [scan 1000 driver_card] factory_state = card_open \<and>
   servo card_open = 120 \<and> \<not> emergencyMode card_open \<and>
   scanCount (registeredCards card_open ! 0) = 1 \<and>
   loop (scan 3000 driver_card) card_open =
     card_open
       \<lparr>clock := 3000,
        registeredCards := (registeredCards card_open)
          [0 := (registeredCards card_open ! 0)\<lparr>scanCount := 2\<rparr>],
        lastScannedCount := 2, lastMessageTime := 3000,
        serial_out := serial_out card_open @
          [''Scanned Card UID: F3 97 17 2D'', ''Access Granted! Welcome, BUS DRIVER'',
           ''Activating servo...'']\<rparr>"
proof -
  have "loop (scan 3000 driver_card) card_open =
     card_open
       \<lparr>clock := 3000,
        registeredCards := (registeredCards card_open)
          [0 := (registeredCards card_open ! 0)\<lparr>scanCount := 2\<rparr>],
        lastScannedCount := 2, lastMessageTime := 3000,
        serial_out := serial_out card_open @
          [''Scanned Card UID: F3 97 17 2D'', ''Access Granted! Welcome, BUS DRIVER'',
           ''Activating servo...'']\<rparr>"
    by (simp add: card_open_def scan_def loop_defs rfid_defs factory_fields print_simps)
  then show ?thesis
    using run_scan by (simp add: card_open_fields)
qed

text \<open>
  Claim C4 fails on the code. A gate opened by the heartbeat that is found blocked after the
  timeout stays open and shows the obstruction on the display, but its timeout is not
  re-armed and nothing is written to the serial port; the gate opened by a card, in the same
  situation, re-arms the timeout and reports on both.
\<close>

theorem blocked_remote_gate_not_rearmed:
  "run [heartbeat 1000] factory_state = remote_open \<and>
   servo remote_open = 120 \<and> lastMessageTime remote_open = 1000 \<and>
   loop (blocked 20000) remote_open =
     remote_open\<lparr>clock := 20000, lcd := (''Gate blocked!'', ''Please move away'')\<rparr> \<and>
   run [scan 1000 driver_card] factory_state = card_open \<and>
   servo card_open = 120 \<and> lastMessageTime card_open = 1000 \<and>
   loop (blocked 20000) card_open =
     card_open
       \<lparr>clock := 20000, lcd := (''Gate blocked!'', ''Please move away''),
        lastMessageTime := 20000,
        serial_out := serial_out card_open @ [''Cannot close servo: Gate is blocked.'']\<rparr>"
proof -
  have "loop (blocked 20000) remote_open =
     remote_open\<lparr>clock := 20000, lcd := (''Gate blocked!'', ''Please move away'')\<rparr>"
    by (simp add: remote_open_def blocked_def loop_defs rfid_defs factory_fields print_simps)
  moreover have "loop (blocked 20000) card_open =
     card_open
       \<lparr>clock := 20000, lcd := (''Gate blocked!'', ''Please move away''),
        lastMessageTime := 20000,
        serial_out := serial_out card_open @ [''Cannot close servo: Gate is blocked.'']\<rparr>"
    by (simp add: card_open_def blocked_def loop_defs rfid_defs factory_fields print_simps)
  ultimately show ?thesis
    using run_scan run_heartbeat by (simp add: card_open_fields remote_open_fields)
qed

text \<open>
  Claim C8, amended. In every state the controller reaches, a line that contains the heartbeat
  text, received while \<^verbatim>\<open>hasRotated\<close> is false, makes the controller wait 6000 ms, write 120
  to the servo, set \<^verbatim>\<open>hasRotated\<close>, and write the snapshot; of the three lines written,
  exactly one starts with \<^verbatim>\<open>D:\<close>. Received while \<^verbatim>\<open>hasRotated\<close> is true, the line only
  resets the timestamp. A gate opened by a card does not set \<^verbatim>\<open>hasRotated\<close>, so a heartbeat
  received then starts the arrival sequence.
\<close>

theorem heartbeat_starts_arrival:
  "(setup_bus junk e = Inr (e', s0) \<and> run is s0 = s \<and>
    indexOf msg ''Hello from Master'' \<noteq> None \<and> \<not> hasRotated s
    \<longrightarrow> handle_bluetooth (Some msg) s =
          s\<lparr>serial_out := serial_out s @
               [''Received via Bluetooth: '' @ msg, snapshot_line s (loaded_cards s),
                ''Sent to Admin: '' @ snapshot_line s (loaded_cards s)],
            lastMessageTime := clock s, clock := clock s + 6000, servo := 120,
            hasRotated := True\<rparr>
        \<and> filter (starts_with ''D:'')
             [''Received via Bluetooth: '' @ msg, snapshot_line s (loaded_cards s),
              ''Sent to Admin: '' @ snapshot_line s (loaded_cards s)]
           = [snapshot_line s (loaded_cards s)])
   \<and> (hasRotated t
    \<longrightarrow> handle_bluetooth (Some msg) t =
          t\<lparr>serial_out := serial_out t @ [''Received via Bluetooth: '' @ msg],
            lastMessageTime := clock t\<rparr>)"
proof (intro conjI impI)
  assume a: "setup_bus junk e = Inr (e', s0) \<and> run is s0 = s \<and>
    indexOf msg ''Hello from Master'' \<noteq> None \<and> \<not> hasRotated s"
  then have "state_ok s" by (blast intro: reachable_ok)
  then have r: "unat (numLoadedCards s) \<le> length (registeredCards s)"
    by (simp add: state_ok_defs)
  have "admin_line
          (s\<lparr>serial_out := serial_out s @ [''Received via Bluetooth: '' @ msg],
             lastMessageTime := clock s, clock := clock s + 6000, servo := 120,
             hasRotated := True\<rparr>)
        = snapshot_line s (loaded_cards s)"
    using r by (simp add: admin_line_eq snapshot_line_def loaded_cards_def)
  then show "handle_bluetooth (Some msg) s =
          s\<lparr>serial_out := serial_out s @
               [''Received via Bluetooth: '' @ msg, snapshot_line s (loaded_cards s),
                ''Sent to Admin: '' @ snapshot_line s (loaded_cards s)],
            lastMessageTime := clock s, clock := clock s + 6000, servo := 120,
            hasRotated := True\<rparr>"
    using a by (simp add: handle_bluetooth_def Let_def println_def delay_def sendAdminData_def)
  show "filter (starts_with ''D:'')
             [''Received via Bluetooth: '' @ msg, snapshot_line s (loaded_cards s),
              ''Sent to Admin: '' @ snapshot_line s (loaded_cards s)]
           = [snapshot_line s (loaded_cards s)]"
    by (simp add: snapshot_line_def)
next
  assume "hasRotated t"
  then show "handle_bluetooth (Some msg) t =
          t\<lparr>serial_out := serial_out t @ [''Received via Bluetooth: '' @ msg],
            lastMessageTime := clock t\<rparr>"
    by (simp add: handle_bluetooth_def Let_def println_def)
qed

text \<open>
  Claim C8 as stated fails: with the gate open after a card scan, the heartbeat starts a new
  arrival sequence, with the settle delay and a snapshot.
\<close>

theorem heartbeat_while_card_open_counterexample:
  "run [scan 1000 driver_card] factory_state = card_open \<and>
   servo card_open = 120 \<and> servoOpen card_open \<and>
   loop (heartbeat 3000) card_open =
     card_open
       \<lparr>lastMessageTime := 3000, clock := 9000, hasRotated := True,
        serial_out := serial_out card_open @
          [''Received via Bluetooth: Hello from Master'' @ [CHR 0x0D],
           ''D:0,0,0,BUS DRIVER,1,HELPER,0,STATION MASTER,0'',
           ''Sent to Admin: D:0,0,0,BUS DRIVER,1,HELPER,0,STATION MASTER,0'']\<rparr>"
proof -
  have "loop (heartbeat 3000) card_open =
     card_open
       \<lparr>lastMessageTime := 3000, clock := 9000, hasRotated := True,
        serial_out := serial_out card_open @
          [''Received via Bluetooth: Hello from Master'' @ [CHR 0x0D],
           ''D:0,0,0,BUS DRIVER,1,HELPER,0,STATION MASTER,0'',
           ''Sent to Admin: D:0,0,0,BUS DRIVER,1,HELPER,0,STATION MASTER,0'']\<rparr>"
    by (simp add: card_open_def heartbeat_def line_def loop_defs rfid_defs factory_fields
        print_simps)
  then show ?thesis
    using run_scan by (simp add: card_open_fields)
qed

text \<open>
  Claim C10. Every line received sets \<^verbatim>\<open>lastMessageTime\<close> to the time of its receipt,
  whatever its content; and a gate opened by the heartbeat stays open through every run in
  which, at each pass, a line is waiting or the last timestamp is at most 10 seconds old.
\<close>

theorem any_line_rearms_gate_timeout:
  "lastMessageTime (handle_bluetooth (Some msg) s) = clock s
   \<and> (hasRotated s \<and> servo s = 120 \<and> lines_keep_arriving is s \<and> run is s = s'
    \<longrightarrow> hasRotated s' \<and> servo s' = 120)"
proof (intro conjI impI)
  show "lastMessageTime (handle_bluetooth (Some msg) s) = clock s"
    by (simp add: handle_bluetooth_def Let_def println_def delay_def sendAdminData_def)
next
  assume a: "hasRotated s \<and> servo s = 120 \<and> lines_keep_arriving is s \<and> run is s = s'"
  then have "hasRotated (run is s) \<and> servo (run is s) = 120"
    by (intro run_keeps_gate_open) simp_all
  then show "hasRotated s'" and "servo s' = 120" using a by simp_all
qed

theorem any_line_rearms_gate_timeout_witness:
  "hasRotated remote_open \<and> servo remote_open = 120 \<and>
   lines_keep_arriving chatter remote_open \<and> run chatter remote_open = still_open \<and>
   hasRotated still_open \<and> servo still_open = 120"
proof -
  have k: "lines_keep_arriving chatter remote_open"
    by (simp add: chatter_def remote_open_def line_in_last_10s_def line_def sense_def loop_defs
        rfid_defs factory_fields print_simps)
  have r: "run chatter remote_open = still_open"
    by (simp add: chatter_def still_open_def remote_open_def line_def sense_def loop_defs
        rfid_defs factory_fields print_simps)
  have o: "hasRotated remote_open \<and> servo remote_open = 120"
    by (simp add: remote_open_fields)
  show ?thesis
    using o k r any_line_rearms_gate_timeout [of "''status?''" remote_open chatter still_open]
    by blast
qed

theorem heartbeat_starts_arrival_witness:
  "(setup_bus no_junk erased = Inr (seeded no_junk erased, factory_state) \<and>
    run [] factory_state = factory_state \<and>
    indexOf (''Hello from Master'' @ [CHR 0x0D]) ''Hello from Master'' \<noteq> None \<and>
    \<not> hasRotated factory_state \<and>
    handle_bluetooth (Some (''Hello from Master'' @ [CHR 0x0D])) factory_state =
      factory_state
        \<lparr>serial_out := serial_out factory_state @
           [''Received via Bluetooth: '' @ ''Hello from Master'' @ [CHR 0x0D],
            snapshot_line factory_state (loaded_cards factory_state),
            ''Sent to Admin: '' @ snapshot_line factory_state (loaded_cards factory_state)],
         lastMessageTime := clock factory_state, clock := clock factory_state + 6000,
         servo := 120, hasRotated := True\<rparr>)
   \<and> (hasRotated remote_open \<and>
      handle_bluetooth (Some (''Hello from Master'' @ [CHR 0x0D])) remote_open =
        remote_open
          \<lparr>serial_out := serial_out remote_open @
             [''Received via Bluetooth: '' @ ''Hello from Master'' @ [CHR 0x0D]],
           lastMessageTime := clock remote_open\<rparr>)"
proof -
  have h: "indexOf (''Hello from Master'' @ [CHR 0x0D]) ''Hello from Master'' \<noteq> None"
    "\<not> hasRotated factory_state" "run [] factory_state = factory_state"
    "hasRotated remote_open"
    by (simp_all add: factory_fields remote_open_fields)
  show ?thesis
    using h boot_erased
      heartbeat_starts_arrival [of no_junk erased "seeded no_junk erased" factory_state "[]"
        factory_state "''Hello from Master'' @ [CHR 0x0D]" remote_open]
    by blast
qed

end
